theory Spec2Isabelle
  imports Main "HOL-Library.AList" "HOL-Library.Multiset"
begin

section \<open>Elections scraper: the two scripts of the repository\<close>

text \<open>
  The repository holds two scripts with the same pipeline: \<^verbatim>\<open>elections-scraper.py\<close>
  (the first version; its functions carry the suffix \<open>_v1\<close> below where the two differ)
  and \<^verbatim>\<open>elections_scraper.py\<close> (the refactored version, unsuffixed). Functions whose
  text is the same in both files (\<open>get_soup\<close>, \<open>get_code_from_url\<close>, \<open>clean_data\<close>,
  \<open>get_csv\<close>, the summing and sorting of \<open>plot_top_10_parties\<close>) are defined once.

  Python \<open>str\<close> is modelled as \<open>string\<close>, every character a code point below 256.
  A parsed document is the record of the answers it gives to the queries the scripts
  ask of it. Library calls whose result depends on the outside world or on a parser the
  scripts do not contain (\<open>requests.get\<close>, \<open>urlparse\<close>/\<open>parse_qs\<close>, \<open>int\<close>) are the
  fields of a record \<open>library\<close>: the general theorems hold for each library, the worked
  examples fix one. The progress bar that \<open>tqdm\<close> draws on the error stream is not
  modelled. Of \<open>argparse\<close>, which the first script calls on its command line, the
  handling of positional arguments is written out and the handling of arguments that
  start with \<open>-\<close> is a parameter.
\<close>

subsection \<open>Exceptions, printed lines, outcomes\<close>

datatype exn =
    ValueError | IndexError | AttributeError | KeyError | TypeError
  | FileExistsError | FileNotFoundError | IsADirectoryError

datatype message =
    FetchFailed string string string
      \<comment> \<open>ERROR: Failed to fetch the page '{url}' / {type(error).__name__}: {error}\<close>
  | LinkWarning
      \<comment> \<open>WARNING: Failed to obtain complete URL for a link.\<close>
  | LinkWarning_v1
      \<comment> \<open>WARNING: Link or attribute 'href' not found in cell: {cell}\<close>
  | CodeNotFound string
      \<comment> \<open>ERROR: District code not found for link: {district_link}\<close>
  | NameNotFound string
      \<comment> \<open>ERROR: District name not found for link: {district_link}\<close>
  | CellNotFound string string
      \<comment> \<open>WARNING: Data cell not found for header {header} in district {location}\<close>
  | CellNotFound_v1 string string
      \<comment> \<open>ERROR: Data cell not found for header {header} in district {district_name}\<close>
  | HeaderError string exn
      \<comment> \<open>ERROR: An error occurred while extracting data for header '{header}': {error}\<close>
  | VotesError exn
      \<comment> \<open>ERROR occurred while extracting votes of parties: {error}\<close>
  | DistrictException string exn
      \<comment> \<open>Error: An exception occurred for district {...}: {error}\<close>
  | Downloading string
  | CsvCreated string
  | PlotCreated string
  | Finished
  | Usage
      \<comment> \<open>Usage: / $ python election_scraper.py <district_url> <filename>\<close>
  | ParserOutput nat
      \<comment> \<open>what \<open>argparse\<close> writes before it exits with the status: usage and error, or help\<close>

text \<open>
  \<open>Return\<close> is a normal return, \<open>Raise\<close> an exception of class \<open>Exception\<close>, and
  \<open>Exit\<close> is \<open>sys.exit(n)\<close>: \<open>SystemExit\<close> is no subclass of \<open>Exception\<close>, so an
  \<^verbatim>\<open>except Exception\<close> clause handles \<open>Raise\<close> and lets \<open>Exit\<close> through.
\<close>

datatype 'a outcome = Return 'a | Raise exn | Exit nat

text \<open>A computation: the lines it prints, in order, and how it ends.\<close>

type_synonym 'a io = "message list \<times> 'a outcome"

definition return :: "'a \<Rightarrow> 'a io" where
  "return x = ([], Return x)"

definition raise :: "exn \<Rightarrow> 'a io" where
  "raise e = ([], Raise e)"

definition print :: "message \<Rightarrow> unit io" where
  "print m = ([m], Return ())"

text \<open>A call that prints nothing: \<open>Inl\<close> is the exception it raises.\<close>

definition lift :: "exn + 'a \<Rightarrow> 'a io" where
  "lift r = (case r of Inl e \<Rightarrow> raise e | Inr x \<Rightarrow> return x)"

definition bind_io :: "'a io \<Rightarrow> ('a \<Rightarrow> 'b io) \<Rightarrow> 'b io" where
  "bind_io m f =
     (case m of
        (out, Return x) \<Rightarrow> (case f x of (out', r) \<Rightarrow> (out @ out', r))
      | (out, Raise e) \<Rightarrow> (out, Raise e)
      | (out, Exit n) \<Rightarrow> (out, Exit n))"

text \<open>\<^verbatim>\<open>try: body except Exception as e: handler\<close>\<close>

definition try_except :: "'a io \<Rightarrow> (exn \<Rightarrow> 'a io) \<Rightarrow> 'a io" where
  "try_except body handler =
     (case body of
        (out, Raise e) \<Rightarrow> (case handler e of (out', r) \<Rightarrow> (out @ out', r))
      | (out, r) \<Rightarrow> (out, r))"

subsection \<open>Strings\<close>

definition isspace :: "char \<Rightarrow> bool" where
  "isspace c = (of_char c \<in> {9, 10, 11, 12, 13, 28, 29, 30, 31, 32, 133, 160 :: nat})"

definition strip :: "string \<Rightarrow> string" where
  "strip s = rev (dropWhile isspace (rev (dropWhile isspace s)))"

fun split :: "char \<Rightarrow> string \<Rightarrow> string list" where
  "split sep [] = [[]]"
| "split sep (c # cs) =
     (if c = sep then [] # split sep cs
      else (case split sep cs of w # ws \<Rightarrow> (c # w) # ws | [] \<Rightarrow> [[c]]))"

definition item :: "'a list \<Rightarrow> nat \<Rightarrow> exn + 'a" where
  "item xs i = (if i < length xs then Inr (xs ! i) else Inl IndexError)"

definition endswith :: "string \<Rightarrow> string \<Rightarrow> bool" where
  "endswith s suffix =
     (length suffix \<le> length s \<and> drop (length s - length suffix) s = suffix)"

definition clean_data :: "string \<Rightarrow> string" where
  "clean_data text = filter (\<lambda>c. c \<noteq> CHR 0xA0) text"

subsection \<open>Documents and the library\<close>

text \<open>
  An anchor element is its attribute lookup (\<open>link.get(name)\<close>). The fields of \<open>page\<close>:
  \<^item> \<open>link_cells\<close>: for each \<^verbatim>\<open>td.cislo\<close> in document order, \<open>cell.find("a")\<close>;
  \<^item> \<open>select_one\<close>: the text of the first element matching a CSS selector;
  \<^item> \<open>party_cells\<close>: the text of each \<^verbatim>\<open>td.overflow_name\<close>, in document order;
  \<^item> \<open>vote_cells\<close>: the text of each \<^verbatim>\<open>td.cislo\<close> whose headers are
    \<^verbatim>\<open>t1sa2 t1sb3\<close> or \<^verbatim>\<open>t2sa2 t2sb3\<close>, in document order;
  \<^item> \<open>header_cell h\<close>: the text of the first \<^verbatim>\<open>td.cislo\<close> with \<^verbatim>\<open>headers=h\<close>.
\<close>

type_synonym anchor = "string \<Rightarrow> string option"

record page =
  link_cells :: "anchor option list"
  select_one :: "string \<Rightarrow> string option"
  party_cells :: "string list"
  vote_cells :: "string list"
  header_cell :: "string \<Rightarrow> string option"

text \<open>
  \<^item> \<open>py_int s\<close>: \<open>int(s)\<close>, \<open>None\<close> when it raises \<open>ValueError\<close>;
  \<^item> \<open>parse_qs u\<close>: \<open>parse_qs(urlparse(u).query)\<close>, \<open>None\<close> when \<open>ValueError\<close> is raised;
  \<^item> \<open>http_get u\<close>: \<open>requests.get(u)\<close> with \<open>raise_for_status()\<close> and the parse of the
    body; \<open>Inl (class, text)\<close> is a \<open>RequestException\<close>.
\<close>

record library =
  py_int :: "string \<Rightarrow> int option"
  parse_qs :: "string \<Rightarrow> (string \<Rightarrow> string list option) option"
  http_get :: "string \<Rightarrow> (string \<times> string) + page"

subsection \<open>Page fetcher\<close>

definition get_soup :: "library \<Rightarrow> string \<Rightarrow> page io" where
  "get_soup lib url =
     (case http_get lib url of
        Inl (cls, txt) \<Rightarrow> ([FetchFailed url cls txt], Exit 1)
      | Inr soup \<Rightarrow> return soup)"

subsection \<open>Link extractor\<close>

definition base_url :: string where
  "base_url = ''https://volby.cz/pls/ps2017nss/''"

definition collect_url :: "anchor option \<Rightarrow> string \<Rightarrow> string \<Rightarrow> string option" where
  "collect_url link attribute base =
     (case link of
        None \<Rightarrow> None
      | Some a \<Rightarrow>
          (case a attribute of
             None \<Rightarrow> None
           | Some href \<Rightarrow> if href = [] then None else Some (base @ href)))"

text \<open>The loop of \<open>extract_all_district_links\<close> over the cells, with \<open>all_links\<close>.\<close>

fun links_loop :: "anchor option list \<Rightarrow> string list \<Rightarrow> string list io" where
  "links_loop [] all_links = return all_links"
| "links_loop (cell # cells) all_links =
     (case collect_url cell ''href'' base_url of
        None \<Rightarrow> bind_io (print LinkWarning) (\<lambda>_. links_loop cells all_links)
      | Some complete_url \<Rightarrow> links_loop cells (all_links @ [complete_url]))"

definition extract_all_district_links :: "page \<Rightarrow> string list io" where
  "extract_all_district_links soup = links_loop (link_cells soup) []"

text \<open>
  The first version: \<open>link.get\<close> on \<open>None\<close> raises \<open>AttributeError\<close>, an empty or missing
  attribute raises \<open>ValueError\<close>; the handler is for \<open>TypeError\<close> and \<open>KeyError\<close> only.
\<close>

definition link_try_v1 :: "anchor option \<Rightarrow> exn + string" where
  "link_try_v1 link =
     (case link of
        None \<Rightarrow> Inl AttributeError
      | Some a \<Rightarrow>
          (case a ''href'' of
             None \<Rightarrow> Inl ValueError
           | Some href \<Rightarrow> if href = [] then Inl ValueError else Inr (base_url @ href)))"

fun links_loop_v1 :: "anchor option list \<Rightarrow> string list \<Rightarrow> string list io" where
  "links_loop_v1 [] all_links = return all_links"
| "links_loop_v1 (cell # cells) all_links =
     (case link_try_v1 cell of
        Inr u \<Rightarrow> links_loop_v1 cells (all_links @ [u])
      | Inl e \<Rightarrow>
          if e = TypeError \<or> e = KeyError
          then bind_io (print LinkWarning_v1) (\<lambda>_. links_loop_v1 cells all_links)
          else raise e)"

definition all_district_links_v1 :: "page \<Rightarrow> string list io" where
  "all_district_links_v1 soup = links_loop_v1 (link_cells soup) []"

subsection \<open>District parser\<close>

definition district_selector :: string where
  "district_selector = ''h3:-soup-contains(\"Obec:\")''"

definition get_district_name :: "page \<Rightarrow> string \<Rightarrow> exn + string option" where
  "get_district_name soup district =
     (case select_one soup district of
        None \<Rightarrow> Inr None
      | Some text \<Rightarrow> map_sum id Some (item (split CHR '':'' (strip text)) 1))"

text \<open>
  The location name in the words of the specification: the substring of the heading's
  text after the first colon, trimmed of surrounding whitespace.
\<close>

definition spec_location_name :: "string \<Rightarrow> string" where
  "spec_location_name text = strip (drop 1 (dropWhile (\<lambda>c. c \<noteq> CHR '':'') text))"

definition heading_page :: "string \<Rightarrow> page" where
  "heading_page text =
     \<lparr>link_cells = [], select_one = (\<lambda>sel. if sel = district_selector then Some text else None),
      party_cells = [], vote_cells = [], header_cell = (\<lambda>h. None)\<rparr>"

subsection \<open>Code of a district\<close>

definition get_code_from_url :: "library \<Rightarrow> string \<Rightarrow> exn + string option" where
  "get_code_from_url lib url =
     (case parse_qs lib url of
        None \<Rightarrow> Inl ValueError
      | Some query_dict \<Rightarrow>
          (case query_dict ''xobec'' of
             None \<Rightarrow> Inr None
           | Some vals \<Rightarrow> map_sum id Some (item vals 0)))"

subsection \<open>Records and party votes\<close>

text \<open>
  A Python \<open>dict\<close> is the list of its items in insertion order, with distinct keys:
  \<open>d[k] = v\<close> is \<open>AList.update k v d\<close> (in place for a key already there, at the end for
  a new one). \<open>political_parties_votes\<close> is \<open>None\<close> or a dict.
\<close>

record district_data =
  location :: string
  political_parties_votes :: "(string \<times> int) list option"
  count_registered :: "int option"
  count_envelopes :: "int option"
  count_valid :: "int option"

type_synonym result_set = "(string \<times> district_data) list"

definition dict :: "('k \<times> 'v) list \<Rightarrow> ('k \<times> 'v) list" where
  "dict pairs = foldl (\<lambda>d (k, v). AList.update k v d) [] pairs"

text \<open>
  \<open>[int(clean_data(votes.get_text().strip())) for votes in cells]\<close>; \<open>None\<close> stands
  for the \<open>ValueError\<close> of the first cell that \<open>int\<close> rejects.
\<close>

fun votes_count :: "library \<Rightarrow> string list \<Rightarrow> int list option" where
  "votes_count lib [] = Some []"
| "votes_count lib (votes # cells) =
     (case py_int lib (clean_data (strip votes)) of
        None \<Rightarrow> None
      | Some n \<Rightarrow> map_option ((#) n) (votes_count lib cells))"

text \<open>
  The refactored \<open>get_votes_of_parties\<close>: the votes are read in the \<open>else\<close> branch of the
  \<open>try\<close> statement, which its \<open>except\<close> clause does not guard. The clause guards the
  stripping of the party names only, which raises nothing.
\<close>

definition get_votes_of_parties :: "library \<Rightarrow> page \<Rightarrow> (string \<times> int) list option io" where
  "get_votes_of_parties lib soup =
     (let political_parties = party_cells soup in
      if political_parties = [] then return None
      else
        (let party_names = map strip political_parties in
         case votes_count lib (vote_cells soup) of
           None \<Rightarrow> raise ValueError
         | Some votes \<Rightarrow> return (Some (dict (zip party_names votes)))))"

text \<open>The first version: everything inside \<open>try\<close>, any exception prints and gives \<open>{}\<close>.\<close>

definition get_votes_of_parties_v1 :: "library \<Rightarrow> page \<Rightarrow> (string \<times> int) list io" where
  "get_votes_of_parties_v1 lib soup =
     try_except
       (let party_names = map strip (party_cells soup) in
        case votes_count lib (vote_cells soup) of
          None \<Rightarrow> raise ValueError
        | Some votes \<Rightarrow> return (dict (zip party_names votes)))
       (\<lambda>e. bind_io (print (VotesError e)) (\<lambda>_. return []))"

subsection \<open>The three aggregate counts\<close>

datatype count_key = Count_registered | Count_envelopes | Count_valid

fun set_count :: "count_key \<Rightarrow> int \<Rightarrow> district_data \<Rightarrow> district_data" where
  "set_count Count_registered n d = d\<lparr>count_registered := Some n\<rparr>"
| "set_count Count_envelopes n d = d\<lparr>count_envelopes := Some n\<rparr>"
| "set_count Count_valid n d = d\<lparr>count_valid := Some n\<rparr>"

text \<open>
  The loop over \<open>headers.items()\<close>. The line printed for a missing cell starts with
  \<open>WARNING\<close> in the refactored script and with \<open>ERROR\<close> in the first: \<open>warn\<close> is that line.
\<close>

fun headers_loop :: "(string \<Rightarrow> string \<Rightarrow> message) \<Rightarrow> library \<Rightarrow> page \<Rightarrow> (count_key \<times> string) list \<Rightarrow> district_data \<Rightarrow> district_data io" where
  "headers_loop warn lib soup [] d = return d"
| "headers_loop warn lib soup ((key, header) # headers) d =
     (case header_cell soup header of
        None \<Rightarrow>
          bind_io (print (warn header (location d))) (\<lambda>_. headers_loop warn lib soup headers d)
      | Some text \<Rightarrow>
          (case py_int lib (clean_data text) of
             None \<Rightarrow>
               bind_io (print (HeaderError header ValueError))
                 (\<lambda>_. headers_loop warn lib soup headers d)
           | Some n \<Rightarrow> headers_loop warn lib soup headers (set_count key n d)))"

definition extract_headers_data :: "library \<Rightarrow> district_data \<Rightarrow> page \<Rightarrow> (count_key \<times> string) list \<Rightarrow> district_data io" where
  "extract_headers_data lib d soup headers = headers_loop CellNotFound lib soup headers d"

definition headers :: "(count_key \<times> string) list" where
  "headers = [(Count_registered, ''sa2''), (Count_envelopes, ''sa3''), (Count_valid, ''sa6'')]"

definition empty_district :: district_data where
  "empty_district =
     \<lparr>location = [], political_parties_votes = Some [], count_registered = None,
      count_envelopes = None, count_valid = None\<rparr>"

subsection \<open>District parser and aggregator, refactored script\<close>

definition extract_district_data :: "library \<Rightarrow> page \<Rightarrow> string \<Rightarrow> district_data option io" where
  "extract_district_data lib soup district =
     bind_io (lift (get_district_name soup district)) (\<lambda>district_name.
       case district_name of
         None \<Rightarrow> return None
       | Some name \<Rightarrow>
           if name = [] then return None
           else
             bind_io (get_votes_of_parties lib soup) (\<lambda>votes.
             bind_io (extract_headers_data lib
                        (empty_district\<lparr>location := name, political_parties_votes := votes\<rparr>)
                        soup headers) (\<lambda>d.
             return (Some d))))"

text \<open>
  The body of the \<open>try\<close> statement for one link; \<open>None\<close> is a pass of the loop that
  inserts nothing, \<open>Some (code, d)\<close> is \<open>all_district_data[code] = d\<close>.
\<close>

definition district_try :: "library \<Rightarrow> string \<Rightarrow> (string \<times> district_data) option io" where
  "district_try lib district_link =
     bind_io (get_soup lib district_link) (\<lambda>individual_district_soup.
     bind_io (lift (get_code_from_url lib district_link)) (\<lambda>code.
       case code of
         None \<Rightarrow> bind_io (print (CodeNotFound district_link)) (\<lambda>_. return None)
       | Some c \<Rightarrow>
           bind_io (extract_district_data lib individual_district_soup district_selector)
             (\<lambda>district_data. return (map_option (Pair c) district_data))))"

definition district_step :: "library \<Rightarrow> string \<Rightarrow> (string \<times> district_data) option io" where
  "district_step lib district_link =
     try_except (district_try lib district_link)
       (\<lambda>e. bind_io (print (DistrictException district_link e)) (\<lambda>_. return None))"

definition insert_record :: "(string \<times> district_data) option \<Rightarrow> result_set \<Rightarrow> result_set" where
  "insert_record r all_data = (case r of None \<Rightarrow> all_data | Some (code, d) \<Rightarrow> AList.update code d all_data)"

text \<open>The \<open>for\<close> loop over the links: \<open>step\<close> is one pass, \<open>all_data\<close> the dict built so far.\<close>

fun districts_loop :: "(string \<Rightarrow> (string \<times> district_data) option io) \<Rightarrow> string list \<Rightarrow> result_set \<Rightarrow> result_set io" where
  "districts_loop step [] all_data = return all_data"
| "districts_loop step (district_link # links) all_data =
     bind_io (step district_link) (\<lambda>r. districts_loop step links (insert_record r all_data))"

definition extract_all_districts_data :: "library \<Rightarrow> page \<Rightarrow> result_set io" where
  "extract_all_districts_data lib soup =
     bind_io (extract_all_district_links soup) (\<lambda>links.
       districts_loop (district_step lib) links [])"

subsection \<open>District parser and aggregator, first script\<close>

text \<open>
  The handler of \<open>global_data\<close> prints the variable \<open>district_name\<close>: the empty string
  until the heading has been read.
\<close>

definition global_data_step :: "library \<Rightarrow> string \<Rightarrow> (string \<times> district_data) option io" where
  "global_data_step lib district_link =
     bind_io (get_soup lib district_link) (\<lambda>individual_district_soup.
       case select_one individual_district_soup district_selector of
         None \<Rightarrow> bind_io (print (NameNotFound district_link)) (\<lambda>_. return None)
       | Some text \<Rightarrow>
           (case item (split CHR '':'' (strip text)) 1 of
              Inl e \<Rightarrow> bind_io (print (DistrictException [] e)) (\<lambda>_. return None)
            | Inr district_name \<Rightarrow>
                try_except
                  (bind_io (lift (get_code_from_url lib district_link)) (\<lambda>code.
                     case code of
                       None \<Rightarrow> bind_io (print (CodeNotFound district_link)) (\<lambda>_. return None)
                     | Some c \<Rightarrow>
                         bind_io (get_votes_of_parties_v1 lib individual_district_soup) (\<lambda>votes.
                         bind_io (headers_loop CellNotFound_v1 lib individual_district_soup headers
                                    (empty_district\<lparr>location := district_name,
                                       political_parties_votes := Some votes\<rparr>)) (\<lambda>d.
                         return (Some (c, d))))))
                  (\<lambda>e. bind_io (print (DistrictException district_name e)) (\<lambda>_. return None))))"

definition global_data_v1 :: "library \<Rightarrow> page \<Rightarrow> result_set io" where
  "global_data_v1 lib soup =
     bind_io (all_district_links_v1 soup) (\<lambda>links.
       districts_loop (global_data_step lib) links [])"

subsection \<open>Files\<close>

text \<open>
  A file system is the set of its directories and the map from paths to files; the
  empty path is the working directory. The content of an exported file is kept
  symbolically: the frame that \<open>to_csv\<close> wrote, the bars that \<open>savefig\<close> drew.
\<close>

datatype file_content = Csv result_set | Png "(string \<times> int) list" | Other string

record filesystem =
  dirs :: "string set"
  files :: "string \<Rightarrow> file_content option"

definition path_exists :: "filesystem \<Rightarrow> string \<Rightarrow> bool" where
  "path_exists fs p = (p \<in> dirs fs \<or> files fs p \<noteq> None)"

definition path_join :: "string \<Rightarrow> string \<Rightarrow> string" where
  "path_join a p =
     (if p \<noteq> [] \<and> hd p = CHR ''/'' then p
      else if a = [] \<or> last a = CHR ''/'' then a @ p
      else a @ ''/'' @ p)"

definition dirname :: "string \<Rightarrow> string" where
  "dirname p =
     (let head = rev (dropWhile (\<lambda>c. c \<noteq> CHR ''/'') (rev p)) in
      if head \<noteq> [] \<and> \<not> list_all (\<lambda>c. c = CHR ''/'') head
      then rev (dropWhile (\<lambda>c. c = CHR ''/'') (rev head))
      else head)"

text \<open>\<open>os.path.splitext(p)[0]\<close>\<close>

definition splitext_root :: "string \<Rightarrow> string" where
  "splitext_root p =
     (let tail = rev (takeWhile (\<lambda>c. c \<noteq> CHR ''/'') (rev p));
          ext = rev (takeWhile (\<lambda>c. c \<noteq> CHR ''.'') (rev tail));
          stem = take (length tail - length ext - 1) tail
      in if CHR ''.'' \<in> set tail \<and> \<not> list_all (\<lambda>c. c = CHR ''.'') stem
         then take (length p - length ext - 1) p
         else p)"

text \<open>\<open>os.makedirs(p, exist_ok=True)\<close> for a path of one component\<close>

definition makedirs :: "filesystem \<Rightarrow> string \<Rightarrow> exn + filesystem" where
  "makedirs fs p =
     (if p \<in> dirs fs then Inr fs
      else if files fs p \<noteq> None then Inl FileExistsError
      else Inr (fs\<lparr>dirs := insert p (dirs fs)\<rparr>))"

text \<open>Opening \<open>p\<close> for writing and writing \<open>content\<close> (\<open>to_csv\<close>, \<open>savefig\<close>)\<close>

definition write_file :: "filesystem \<Rightarrow> string \<Rightarrow> file_content \<Rightarrow> exn + filesystem" where
  "write_file fs p content =
     (if p \<in> dirs fs then Inl IsADirectoryError
      else if dirname p \<noteq> [] \<and> dirname p \<notin> dirs fs then Inl FileNotFoundError
      else Inr (fs\<lparr>files := (files fs)(p \<mapsto> content)\<rparr>))"

subsection \<open>CSV exporter\<close>

definition add_extension :: "string \<Rightarrow> string \<Rightarrow> string" where
  "add_extension filename extension =
     (if endswith filename (''.'' @ extension) then filename
      else filename @ ''.'' @ extension)"

definition add_extension_v1 :: "string \<Rightarrow> string \<Rightarrow> string" where
  "add_extension_v1 filename extension = filename @ ''.'' @ extension"

text \<open>
  \<open>pd.DataFrame.from_dict(data, orient='index')\<close> and the selection of the five columns
  \<open>df[['location', ...]]\<close>: the frame of an empty dict has no column, and the selection
  raises \<open>KeyError\<close>. Otherwise the frame holds the records; unnesting the party votes
  changes its layout only.
\<close>

definition data_frame :: "result_set \<Rightarrow> exn + result_set" where
  "data_frame data = (if data = [] then Inl KeyError else Inr data)"

text \<open>
  \<open>get_csv\<close> from the frame on: \<open>file_path\<close> is built with the script's own
  \<open>add_extension\<close>, \<open>line\<close> is the line printed at the end.
\<close>

definition export_csv :: "filesystem \<Rightarrow> result_set \<Rightarrow> string \<Rightarrow> message \<Rightarrow> filesystem \<times> unit io" where
  "export_csv fs data file_path line =
     (case data_frame data of
        Inl e \<Rightarrow> (fs, raise e)
      | Inr df \<Rightarrow>
          (case makedirs fs ''Results'' of
             Inl e \<Rightarrow> (fs, raise e)
           | Inr fs1 \<Rightarrow>
               if path_exists fs1 file_path then (fs1, raise FileExistsError)
               else
                 (case write_file fs1 file_path (Csv df) of
                    Inl e \<Rightarrow> (fs1, raise e)
                  | Inr fs2 \<Rightarrow> (fs2, print line))))"

definition get_csv :: "filesystem \<Rightarrow> result_set \<Rightarrow> string \<Rightarrow> filesystem \<times> unit io" where
  "get_csv fs data filename =
     (let file_path = path_join ''Results'' (add_extension filename ''csv'')
      in export_csv fs data file_path (CsvCreated file_path))"

definition get_csv_v1 :: "filesystem \<Rightarrow> result_set \<Rightarrow> string \<Rightarrow> filesystem \<times> unit io" where
  "get_csv_v1 fs data filename =
     (let file_path = path_join ''Results'' (add_extension_v1 filename ''csv'')
      in export_csv fs data file_path (CsvCreated (filename @ ''.csv'')))"

subsection \<open>Chart renderer\<close>

text \<open>The inner loop: \<open>party_votes[party] = party_votes.get(party, 0) + votes\<close>.\<close>

fun add_votes :: "(string \<times> int) list \<Rightarrow> (string \<times> int) list \<Rightarrow> (string \<times> int) list" where
  "add_votes [] party_votes = party_votes"
| "add_votes ((party, votes) # items) party_votes =
     add_votes items
       (AList.update party ((case map_of party_votes party of None \<Rightarrow> 0 | Some t \<Rightarrow> t) + votes)
          party_votes)"

text \<open>The outer loop over \<open>data.values()\<close>; \<open>.items()\<close> of \<open>None\<close> raises \<open>AttributeError\<close>.\<close>

fun sum_votes :: "district_data list \<Rightarrow> (string \<times> int) list \<Rightarrow> exn + (string \<times> int) list" where
  "sum_votes [] party_votes = Inr party_votes"
| "sum_votes (district # districts) party_votes =
     (case political_parties_votes district of
        None \<Rightarrow> Inl AttributeError
      | Some items \<Rightarrow> sum_votes districts (add_votes items party_votes))"

text \<open>
  \<open>sorted(xs, key=key, reverse=True)\<close>: the list is reversed, sorted by the stable
  ascending sort, and reversed again.
\<close>

definition sorted_reverse :: "('a \<Rightarrow> int) \<Rightarrow> 'a list \<Rightarrow> 'a list" where
  "sorted_reverse key xs = rev (sort_key key (rev xs))"

definition top_10_parties :: "result_set \<Rightarrow> exn + (string \<times> int) list" where
  "top_10_parties data =
     map_sum id (\<lambda>party_votes. dict (take 10 (sorted_reverse snd party_votes)))
       (sum_votes (map snd data) [])"

text \<open>The chart is computed, then saved under \<open>file_path\<close>; \<open>line\<close> is the last line printed.\<close>

definition render_chart :: "filesystem \<Rightarrow> result_set \<Rightarrow> string \<Rightarrow> message \<Rightarrow> filesystem \<times> unit io" where
  "render_chart fs data file_path line =
     (case top_10_parties data of
        Inl e \<Rightarrow> (fs, raise e)
      | Inr bars \<Rightarrow>
          (case write_file fs file_path (Png bars) of
             Inl e \<Rightarrow> (fs, raise e)
           | Inr fs1 \<Rightarrow> (fs1, print line)))"

definition plot_top_10_parties :: "filesystem \<Rightarrow> result_set \<Rightarrow> string \<Rightarrow> filesystem \<times> unit io" where
  "plot_top_10_parties fs data filename =
     (let plot_filename = add_extension (''Top_10_Parties_of_'' @ splitext_root filename) ''png'';
          file_path = path_join ''Results'' plot_filename
      in render_chart fs data file_path (PlotCreated file_path))"

definition plot_top_10_parties_v1 :: "filesystem \<Rightarrow> result_set \<Rightarrow> string \<Rightarrow> filesystem \<times> unit io" where
  "plot_top_10_parties_v1 fs data filename =
     (let file_path = path_join ''Results'' (add_extension_v1 (''Top_10_Parties_of_'' @ filename) ''png'')
      in render_chart fs data file_path (PlotCreated (''Top_10_Parties_of_'' @ filename @ ''.png'')))"

subsection \<open>The whole run\<close>

text \<open>
  \<open>scrape\<close> is \<open>extract_all_districts_data\<close> or \<open>global_data\<close>, \<open>export\<close> and \<open>plot\<close> the
  script's \<open>get_csv\<close> and \<open>plot_top_10_parties\<close>. An outcome other than \<open>Return\<close> ends
  the process: \<open>Exit n\<close> with status \<open>n\<close>, \<open>Raise e\<close> with the traceback of \<open>e\<close>.
\<close>

definition run :: "(page \<Rightarrow> result_set io) \<Rightarrow> (filesystem \<Rightarrow> result_set \<Rightarrow> string \<Rightarrow> filesystem \<times> unit io) \<Rightarrow> (filesystem \<Rightarrow> result_set \<Rightarrow> string \<Rightarrow> filesystem \<times> unit io) \<Rightarrow> library \<Rightarrow> filesystem \<Rightarrow> string \<Rightarrow> string \<Rightarrow> filesystem \<times> unit io" where
  "run scrape export plot lib fs url filename =
     (case bind_io (print (Downloading url)) (\<lambda>_. bind_io (get_soup lib url) scrape) of
        (out, Raise e) \<Rightarrow> (fs, (out, Raise e))
      | (out, Exit n) \<Rightarrow> (fs, (out, Exit n))
      | (out, Return dict_of_data) \<Rightarrow>
          (case export fs dict_of_data filename of
             (fs1, (out1, Raise e)) \<Rightarrow> (fs1, (out @ out1, Raise e))
           | (fs1, (out1, Exit n)) \<Rightarrow> (fs1, (out @ out1, Exit n))
           | (fs1, (out1, Return _)) \<Rightarrow>
               (case plot fs1 dict_of_data filename of
                  (fs2, (out2, Return _)) \<Rightarrow> (fs2, (out @ out1 @ out2 @ [Finished], Return ()))
                | (fs2, (out2, r)) \<Rightarrow> (fs2, (out @ out1 @ out2, r)))))"

definition elections_scraper :: "library \<Rightarrow> filesystem \<Rightarrow> string \<Rightarrow> string \<Rightarrow> filesystem \<times> unit io" where
  "elections_scraper lib = run (extract_all_districts_data lib) get_csv plot_top_10_parties lib"

definition elections_scraper_v1 :: "library \<Rightarrow> filesystem \<Rightarrow> string \<Rightarrow> string \<Rightarrow> filesystem \<times> unit io" where
  "elections_scraper_v1 lib = run (global_data_v1 lib) get_csv_v1 plot_top_10_parties_v1 lib"

subsection \<open>Command line\<close>

text \<open>
  \<open>argv\<close> is \<open>sys.argv\<close>, the name of the script first. The refactored script counts
  the list itself: unless it has three elements the usage line is printed and the process
  exits with status 1; the second and third element are taken as they are.
\<close>

definition main :: "library \<Rightarrow> filesystem \<Rightarrow> string list \<Rightarrow> filesystem \<times> unit io" where
  "main lib fs argv =
     (if length argv \<noteq> 3 then (fs, ([Usage], Exit 1))
      else elections_scraper lib fs (argv ! 1) (argv ! 2))"

text \<open>
  The first script gives \<open>sys.argv[1:]\<close> to an \<open>argparse\<close> parser with the two positional
  arguments \<open>url\<close> and \<open>filename\<close>. The parser takes an argument that is empty or does
  not start with \<open>-\<close> as a positional one. When all arguments are of this kind, two of
  them are the values of \<open>url\<close> and \<open>filename\<close>; fewer (\<^emph>\<open>the following arguments are
  required\<close>) or more (\<^emph>\<open>unrecognized arguments\<close>) make the parser print its usage with
  the error and exit with status 2. What the parser does with a list that holds an
  argument starting with \<open>-\<close> (an option, \<open>-h\<close>, \<open>--\<close>, a negative number) is the
  parameter \<open>dashed\<close>: the exit status, or the two values.
\<close>

definition plain :: "string \<Rightarrow> bool" where
  "plain arg = (arg = [] \<or> hd arg \<noteq> CHR ''-'')"

definition parse_args :: "(string list \<Rightarrow> nat + string \<times> string) \<Rightarrow> string list \<Rightarrow> nat + string \<times> string" where
  "parse_args dashed args =
     (if list_all plain args
      then (if length args = 2 then Inr (args ! 0, args ! 1) else Inl 2)
      else dashed args)"

definition main_v1 :: "(string list \<Rightarrow> nat + string \<times> string) \<Rightarrow> library \<Rightarrow> filesystem \<Rightarrow> string list \<Rightarrow> filesystem \<times> unit io" where
  "main_v1 dashed lib fs argv =
     (case parse_args dashed (drop 1 argv) of
        Inl status \<Rightarrow> (fs, ([ParserOutput status], Exit status))
      | Inr (url, filename) \<Rightarrow> elections_scraper_v1 lib fs url filename)"

section \<open>Notions of the specification\<close>

subsection \<open>Link extractor\<close>

text \<open>
  The reference attribute of a cell's hyperlink, when the hyperlink and a non-empty
  attribute are both there: a \<^emph>\<open>valid\<close> district cell is one where this is not \<open>None\<close>.
\<close>

definition cell_href :: "anchor option \<Rightarrow> string option" where
  "cell_href cell =
     (case cell of
        None \<Rightarrow> None
      | Some a \<Rightarrow> (case a ''href'' of None \<Rightarrow> None | Some href \<Rightarrow> if href = [] then None else Some href))"

subsection \<open>Party votes\<close>

text \<open>A vote cell that is successfully parsed.\<close>

definition parses :: "library \<Rightarrow> string \<Rightarrow> bool" where
  "parses lib votes = (py_int lib (clean_data (strip votes)) \<noteq> None)"

subsection \<open>Chart totals\<close>

text \<open>
  \<open>encounter seen ks\<close> lists the keys in the order they are first met, after those
  already \<open>seen\<close>. A record \<^emph>\<open>has a party dict\<close> when its party votes are a dict and not
  \<open>None\<close>; \<open>votes_in d party\<close> is the party's count in the record, \<open>0\<close> when the party
  is absent from it; \<open>total_votes\<close> sums it over the records.
\<close>

fun encounter :: "'a list \<Rightarrow> 'a list \<Rightarrow> 'a list" where
  "encounter seen [] = seen"
| "encounter seen (k # ks) = encounter (if k \<in> set seen then seen else seen @ [k]) ks"

definition votes_for :: "string \<Rightarrow> (string \<times> int) list \<Rightarrow> int" where
  "votes_for party items = sum_list (map snd (filter (\<lambda>item. fst item = party) items))"

definition record_items :: "district_data \<Rightarrow> (string \<times> int) list" where
  "record_items d = (case political_parties_votes d of None \<Rightarrow> [] | Some items \<Rightarrow> items)"

definition has_party_dict :: "district_data \<Rightarrow> bool" where
  "has_party_dict d =
     (case political_parties_votes d of None \<Rightarrow> False | Some items \<Rightarrow> distinct (map fst items))"

definition votes_in :: "district_data \<Rightarrow> string \<Rightarrow> int" where
  "votes_in d party = (case map_of (record_items d) party of None \<Rightarrow> 0 | Some v \<Rightarrow> v)"

definition total_votes :: "string \<Rightarrow> district_data list \<Rightarrow> int" where
  "total_votes party districts = sum_list (map (\<lambda>d. votes_in d party) districts)"

text \<open>Two districts: party A with 10 and 7 votes, party B with 3 and 0.\<close>

definition chart_example :: result_set where
  "chart_example =
     [(''1'', empty_district\<lparr>political_parties_votes := Some [(''A'', 10), (''B'', 3)]\<rparr>),
      (''2'', empty_district\<lparr>political_parties_votes := Some [(''A'', 7), (''B'', 0)]\<rparr>)]"

subsection \<open>Worked examples\<close>

text \<open>
  A library for the worked examples. \<open>example_int\<close> gives the value of a text of ASCII
  digits and rejects every other text; \<open>int\<close> agrees with it on the texts used below
  (digits only, or a letter). The links carry the codes 1 and 2, \<open>link1b\<close> the code 1
  again; a URL that has no page is unreachable.
\<close>

definition example_int :: "string \<Rightarrow> int option" where
  "example_int s =
     (if s \<noteq> [] \<and> list_all (\<lambda>c. 48 \<le> (of_char c :: nat) \<and> (of_char c :: nat) \<le> 57) s
      then Some (foldl (\<lambda>n c. 10 * n + (int (of_char c) - 48)) 0 s)
      else None)"

definition link1 :: string where
  "link1 = base_url @ ''ps311?xobec=1''"

definition link2 :: string where
  "link2 = base_url @ ''ps311?xobec=2''"

definition link1b :: string where
  "link1b = base_url @ ''ps311?xobec=1&xvyber=2101''"

definition example_qs :: "string \<Rightarrow> (string \<Rightarrow> string list option) option" where
  "example_qs url =
     (if url = link1 then Some [''xobec'' \<mapsto> [''1'']]
      else if url = link2 then Some [''xobec'' \<mapsto> [''2'']]
      else if url = link1b then Some [''xobec'' \<mapsto> [''1''], ''xvyber'' \<mapsto> [''2101'']]
      else Some Map.empty)"

definition example_library :: "(string \<Rightarrow> page option) \<Rightarrow> library" where
  "example_library pages =
     \<lparr>py_int = example_int, parse_qs = example_qs,
      http_get = (\<lambda>url. case pages url of
                     None \<Rightarrow> Inl (''ConnectionError'', ''unreachable'')
                   | Some soup \<Rightarrow> Inr soup)\<rparr>"

text \<open>An index page with the given cells; a district page with the given contents.\<close>

definition index_page :: "anchor option list \<Rightarrow> page" where
  "index_page cells =
     \<lparr>link_cells = cells, select_one = (\<lambda>sel. None), party_cells = [], vote_cells = [],
      header_cell = (\<lambda>h. None)\<rparr>"

definition district_page :: "string \<Rightarrow> string list \<Rightarrow> string list \<Rightarrow> (string \<Rightarrow> string option) \<Rightarrow> page" where
  "district_page text names votes counts =
     \<lparr>link_cells = [], select_one = (\<lambda>sel. if sel = district_selector then Some text else None),
      party_cells = names, vote_cells = votes, header_cell = counts\<rparr>"

definition cell1 :: "anchor option" where
  "cell1 = Some [''href'' \<mapsto> ''ps311?xobec=1'']"

definition cell2 :: "anchor option" where
  "cell2 = Some [''href'' \<mapsto> ''ps311?xobec=2'']"

definition cell1b :: "anchor option" where
  "cell1b = Some [''href'' \<mapsto> ''ps311?xobec=1&xvyber=2101'']"

text \<open>Two party names, and a second vote cell that is no number.\<close>

definition votes_page :: page where
  "votes_page = district_page ''Obec: X'' [''A'', ''B''] [''1'', ''x''] (\<lambda>h. None)"

text \<open>More names than votes, and party A named twice.\<close>

definition zip_page :: page where
  "zip_page = district_page ''Obec: X'' [''A'', ''B'', ''A'', ''C''] [''1'', ''2'', ''3''] (\<lambda>h. None)"

subsection \<open>Fetching and ending\<close>

text \<open>
  \<open>fetched\<close>: the request for the URL succeeds. \<open>returns\<close>: the computation ends normally;
  \<open>no_exit\<close>: it does not end the process. \<open>yield step link\<close> is what a pass of the loop
  inserts.
\<close>

definition fetched :: "library \<Rightarrow> string \<Rightarrow> bool" where
  "fetched lib url = (case http_get lib url of Inl _ \<Rightarrow> False | Inr _ \<Rightarrow> True)"

definition returns :: "'a io \<Rightarrow> bool" where
  "returns m = (case snd m of Return _ \<Rightarrow> True | _ \<Rightarrow> False)"

definition no_exit :: "'a io \<Rightarrow> bool" where
  "no_exit m = (case snd m of Exit _ \<Rightarrow> False | _ \<Rightarrow> True)"

definition yield :: "(string \<Rightarrow> (string \<times> district_data) option io) \<Rightarrow> string \<Rightarrow> (string \<times> district_data) option" where
  "yield step link = (case snd (step link) of Return r \<Rightarrow> r | _ \<Rightarrow> None)"

text \<open>A site whose index lists two districts; the page of the second is unreachable.\<close>

definition index_url :: string where
  "index_url = base_url @ ''ps32?xnumnuts=2101''"

definition good_page :: page where
  "good_page =
     district_page ''Obec: Praha'' [''A'', ''B''] [''10'', ''3'']
       [''sa2'' \<mapsto> ''100'', ''sa3'' \<mapsto> ''90'', ''sa6'' \<mapsto> ''88'']"

definition broken_site :: "string \<Rightarrow> page option" where
  "broken_site = [index_url \<mapsto> index_page [cell1, cell2], link1 \<mapsto> good_page]"

definition empty_fs :: filesystem where
  "empty_fs = \<lparr>dirs = {}, files = Map.empty\<rparr>"

subsection \<open>Records\<close>

text \<open>
  \<open>count_of\<close>: the count read from the cell of a header, \<open>None\<close> when the cell is
  missing or its text is not parsed. \<open>parsed_record\<close>: the record with the given name and
  party votes and the three counts of the page, each read from its own cell.
\<close>

definition count_of :: "library \<Rightarrow> page \<Rightarrow> string \<Rightarrow> int option" where
  "count_of lib soup header =
     (case header_cell soup header of None \<Rightarrow> None | Some text \<Rightarrow> py_int lib (clean_data text))"

definition parsed_record :: "library \<Rightarrow> page \<Rightarrow> string \<Rightarrow> (string \<times> int) list option \<Rightarrow> district_data" where
  "parsed_record lib soup name votes =
     \<lparr>location = name, political_parties_votes = votes,
      count_registered = count_of lib soup ''sa2'',
      count_envelopes = count_of lib soup ''sa3'',
      count_valid = count_of lib soup ''sa6''\<rparr>"

text \<open>
  \<open>zipped_votes\<close>: the dict of the party names zipped with the counts, empty when a vote
  cell is not parsed. \<open>refactored_votes\<close>: what the refactored script stores when it does
  not raise.
\<close>

definition zipped_votes :: "library \<Rightarrow> page \<Rightarrow> (string \<times> int) list" where
  "zipped_votes lib soup =
     (case votes_count lib (vote_cells soup) of
        None \<Rightarrow> []
      | Some votes \<Rightarrow> dict (zip (map strip (party_cells soup)) votes))"

definition refactored_votes :: "library \<Rightarrow> page \<Rightarrow> (string \<times> int) list option" where
  "refactored_votes lib soup =
     (if party_cells soup = [] then None else Some (zipped_votes lib soup))"

definition votes_fail :: "library \<Rightarrow> page \<Rightarrow> bool" where
  "votes_fail lib soup = (party_cells soup \<noteq> [] \<and> \<not> list_all (parses lib) (vote_cells soup))"

text \<open>
  \<open>page_links\<close>: the absolute URLs of the valid cells of an index page, in document
  order. \<open>named\<close>: the page of the link is fetched and has a heading with a non-empty name
  after its first colon.
\<close>

definition page_links :: "page \<Rightarrow> string list" where
  "page_links soup = map (\<lambda>h. base_url @ h) (List.map_filter cell_href (link_cells soup))"

definition named :: "library \<Rightarrow> string \<Rightarrow> bool" where
  "named lib link =
     (case http_get lib link of
        Inl _ \<Rightarrow> False
      | Inr soup \<Rightarrow>
          (case get_district_name soup district_selector of
             Inr (Some name) \<Rightarrow> name \<noteq> []
           | _ \<Rightarrow> False))"

text \<open>The record that both scripts read from \<open>good_page\<close>.\<close>

definition good_record :: district_data where
  "good_record =
     \<lparr>location = '' Praha'', political_parties_votes = Some [(''A'', 10), (''B'', 3)],
      count_registered = Some 100, count_envelopes = Some 90, count_valid = Some 88\<rparr>"

text \<open>An index that lists the same district twice; an index of two districts.\<close>

definition twin_site :: "string \<Rightarrow> page option" where
  "twin_site = [link1 \<mapsto> good_page]"

text \<open>
  Two links with the code 1 and different pages: \<open>other_page\<close> and the record that both
  scripts read from it.
\<close>

definition other_page :: page where
  "other_page =
     district_page ''Obec: Brno'' [''A''] [''5'']
       [''sa2'' \<mapsto> ''50'', ''sa3'' \<mapsto> ''40'', ''sa6'' \<mapsto> ''39'']"

definition other_record :: district_data where
  "other_record =
     \<lparr>location = '' Brno'', political_parties_votes = Some [(''A'', 5)],
      count_registered = Some 50, count_envelopes = Some 40, count_valid = Some 39\<rparr>"

definition repeat_site :: "string \<Rightarrow> page option" where
  "repeat_site = [link1 \<mapsto> good_page, link1b \<mapsto> other_page]"

definition pair_site :: "string \<Rightarrow> page option" where
  "pair_site = [link1 \<mapsto> good_page, link2 \<mapsto> good_page]"

text \<open>
  A district whose second vote cell is no number, and a district whose heading has
  nothing after the colon; a district page without the cell of the registered voters.
\<close>

definition nameless_page :: page where
  "nameless_page = district_page ''Obec:'' [] [] Map.empty"

definition lossy_site :: "string \<Rightarrow> page option" where
  "lossy_site = [link1 \<mapsto> votes_page, link2 \<mapsto> nameless_page]"

definition partial_page :: page where
  "partial_page =
     district_page ''Obec: Praha'' [''A'', ''B''] [''10'', ''3'']
       [''sa3'' \<mapsto> ''90'', ''sa6'' \<mapsto> ''88'']"

definition partial_site :: "string \<Rightarrow> page option" where
  "partial_site = [link1 \<mapsto> partial_page]"

definition partial_record :: district_data where
  "partial_record =
     \<lparr>location = '' Praha'', political_parties_votes = Some [(''A'', 10), (''B'', 3)],
      count_registered = None, count_envelopes = Some 90, count_valid = Some 88\<rparr>"

subsection \<open>Export\<close>

text \<open>The target of the export, \<open>Results/<name>.csv\<close>, as each script builds it.\<close>

definition csv_path :: "string \<Rightarrow> string" where
  "csv_path filename = path_join ''Results'' (add_extension filename ''csv'')"

definition csv_path_v1 :: "string \<Rightarrow> string" where
  "csv_path_v1 filename = path_join ''Results'' (add_extension_v1 filename ''csv'')"

text \<open>The file of the chart, \<open>Results/Top_10_Parties_of_<name>.png\<close>, as each script builds it.\<close>

definition chart_path :: "string \<Rightarrow> string" where
  "chart_path filename =
     path_join ''Results'' (add_extension (''Top_10_Parties_of_'' @ splitext_root filename) ''png'')"

definition chart_path_v1 :: "string \<Rightarrow> string" where
  "chart_path_v1 filename =
     path_join ''Results'' (add_extension_v1 (''Top_10_Parties_of_'' @ filename) ''png'')"

text \<open>A site whose district link leads to a page without the heading.\<close>

definition headless_site :: "string \<Rightarrow> page option" where
  "headless_site = [link1 \<mapsto> index_page []]"



text \<open>A site with one district whose page has no party-name cell.\<close>

definition noparty_page :: page where
  "noparty_page =
     district_page ''Obec: Praha'' [] []
       [''sa2'' \<mapsto> ''100'', ''sa3'' \<mapsto> ''90'', ''sa6'' \<mapsto> ''88'']"

definition noparty_site :: "string \<Rightarrow> page option" where
  "noparty_site = [index_url \<mapsto> index_page [cell1], link1 \<mapsto> noparty_page]"

definition noparty_record :: "(string \<times> int) list option \<Rightarrow> district_data" where
  "noparty_record votes =
     \<lparr>location = '' Praha'', political_parties_votes = votes,
      count_registered = Some 100, count_envelopes = Some 90, count_valid = Some 88\<rparr>"

section \<open>Theorems\<close>

subsection \<open>Computations\<close>

lemma bind_io_return [simp]: "bind_io (return x) f = f x"
  by (simp add: bind_io_def return_def split: prod.splits)

lemma bind_io_raise [simp]: "bind_io (raise e) f = raise e"
  by (simp add: bind_io_def raise_def)

lemma bind_io_print [simp]: "bind_io (print m) f = (m # fst (f ()), snd (f ()))"
  by (simp add: bind_io_def print_def split: prod.splits)

lemma bind_io_Return: "bind_io (out, Return x) f = (out @ fst (f x), snd (f x))"
  by (simp add: bind_io_def split: prod.splits)

lemma bind_io_Exit [simp]: "bind_io (out, Exit n) f = (out, Exit n)"
  by (simp add: bind_io_def)

lemma bind_io_Raise [simp]: "bind_io (out, Raise e) f = (out, Raise e)"
  by (simp add: bind_io_def)

lemma lift_simps [simp]: "lift (Inl e) = raise e" "lift (Inr x) = return x"
  by (simp_all add: lift_def)

lemma try_except_return [simp]: "try_except (return x) h = return x"
  by (simp add: try_except_def return_def)

lemma try_except_raise [simp]: "try_except (raise e) h = h e"
  by (simp add: try_except_def raise_def split: prod.splits)

subsection \<open>Dicts\<close>

text \<open>A later pair overrides an earlier one with the same key; the keys come out distinct.\<close>

lemma map_of_foldl_update:
  "map_of (foldl (\<lambda>d (k, v). AList.update k v d) acc pairs) = map_of acc ++ map_of (rev pairs)"
  by (induction pairs arbitrary: acc) (auto simp: update_conv')

lemma map_of_dict: "map_of (dict pairs) = map_of (rev pairs)"
  by (simp add: dict_def map_of_foldl_update)

lemma distinct_foldl_update:
  "distinct (map fst acc) \<Longrightarrow> distinct (map fst (foldl (\<lambda>d (k, v). AList.update k v d) acc pairs))"
  by (induction pairs arbitrary: acc) (auto simp: distinct_update)

lemma distinct_dict: "distinct (map fst (dict pairs))"
  by (simp add: dict_def distinct_foldl_update)

lemma keys_foldl_update:
  "fst ` set (foldl (\<lambda>d (k, v). AList.update k v d) acc pairs) = fst ` set acc \<union> fst ` set pairs"
proof (induction pairs arbitrary: acc)
  case Nil
  then show ?case by simp
next
  case (Cons p pairs)
  have "fst ` set (AList.update (fst p) (snd p) acc) = insert (fst p) (fst ` set acc)"
    by (simp add: dom_update)
  with Cons.IH [of "AList.update (fst p) (snd p) acc"] show ?case
    by (simp add: case_prod_beta insert_commute)
qed

lemma keys_dict: "fst ` set (dict pairs) = fst ` set pairs"
  by (simp add: dict_def keys_foldl_update)

lemma length_dict: "length (dict pairs) = card (fst ` set pairs)"
proof -
  have "length (dict pairs) = length (map fst (dict pairs))" by simp
  also have "\<dots> = card (set (map fst (dict pairs)))"
    using distinct_dict [of pairs] by (simp only: distinct_card)
  also have "\<dots> = card (fst ` set pairs)" by (simp add: keys_dict)
  finally show ?thesis .
qed

lemma foldl_update_distinct:
  "distinct (map fst (acc @ pairs)) \<Longrightarrow> foldl (\<lambda>d (k, v). AList.update k v d) acc pairs = acc @ pairs"
proof (induction pairs arbitrary: acc)
  case Nil
  then show ?case by simp
next
  case (Cons p pairs)
  obtain k v where p: "p = (k, v)" by (cases p)
  have "AList.update k v acc = acc @ [(k, v)]"
    using Cons.prems p by (induction acc) auto
  with Cons p show ?case by simp
qed

lemma dict_distinct: "distinct (map fst pairs) \<Longrightarrow> dict pairs = pairs"
  using foldl_update_distinct [of "[]" pairs] by (simp add: dict_def)

subsection \<open>Location name\<close>

text \<open>
  C6: the location name is claimed to be the text after the first colon, trimmed. On the
  heading \<open>Obec: Praha\<close> both scripts compute \<open>text.strip().split(":")[1]\<close>, which keeps the
  blank after the colon; on \<open>Obec: A:B\<close> it stops at the second colon.
\<close>

theorem C6_location_name_not_trimmed:
  "get_district_name (heading_page ''Obec: Praha'') district_selector = Inr (Some '' Praha'')
   \<and> spec_location_name ''Obec: Praha'' = ''Praha''
   \<and> get_district_name (heading_page ''Obec: A:B'') district_selector = Inr (Some '' A'')
   \<and> spec_location_name ''Obec: A:B'' = ''A:B''"
  by (simp add: get_district_name_def heading_page_def spec_location_name_def strip_def item_def
      isspace_def)

subsection \<open>Links\<close>

lemma links_loop_eq:
  "links_loop cells all_links =
     (replicate (length (filter (\<lambda>c. cell_href c = None) cells)) LinkWarning,
      Return (all_links @ map (\<lambda>h. base_url @ h) (List.map_filter cell_href cells)))"
  by (induction cells arbitrary: all_links)
     (auto simp: return_def collect_url_def cell_href_def split: option.splits)

lemma links_loop_v1_good:
  "list_all (\<lambda>c. cell_href c \<noteq> None) cells \<Longrightarrow>
   links_loop_v1 cells all_links = ([], Return (all_links @ map (\<lambda>h. base_url @ h) (List.map_filter cell_href cells)))"
  by (induction cells arbitrary: all_links)
     (auto simp: return_def link_try_v1_def cell_href_def split: option.splits)

lemma links_loop_v1_bad:
  "\<not> list_all (\<lambda>c. cell_href c \<noteq> None) cells \<Longrightarrow>
   \<exists>e. links_loop_v1 cells all_links = ([], Raise e) \<and> (e = AttributeError \<or> e = ValueError)"
  by (induction cells arbitrary: all_links)
     (auto simp: raise_def link_try_v1_def cell_href_def split: option.splits)

subsection \<open>Vote cells\<close>

lemma votes_count_Some_iff:
  "(\<exists>votes. votes_count lib cells = Some votes) = list_all (parses lib) cells"
  by (induction cells) (auto simp: parses_def split: option.splits)

lemma votes_count_None_iff:
  "votes_count lib cells = None \<longleftrightarrow> \<not> list_all (parses lib) cells"
  using votes_count_Some_iff [of lib cells] by auto

lemma votes_count_length:
  "votes_count lib cells = Some votes \<Longrightarrow> length votes = length cells"
  by (induction cells arbitrary: votes) (auto split: option.splits)

lemma votes_count_map:
  "votes_count lib cells = Some votes \<Longrightarrow>
   map Some votes = map (\<lambda>v. py_int lib (clean_data (strip v))) cells"
  by (induction cells arbitrary: votes) (auto split: option.splits)

subsection \<open>Chart\<close>

lemma votes_for_distinct:
  "distinct (map fst items) \<Longrightarrow>
   votes_for party items = (case map_of items party of None \<Rightarrow> 0 | Some v \<Rightarrow> v)"
  by (induction items) (auto simp: votes_for_def image_iff split: option.splits)

lemma remdups_drop_seen: "k \<in> set ys \<Longrightarrow> remdups (xs @ k # ys) = remdups (xs @ ys)"
  by (induction xs) auto

lemma encounter_remdups: "distinct seen \<Longrightarrow> encounter seen ks = rev (remdups (rev (seen @ ks)))"
proof (induction ks arbitrary: seen)
  case Nil
  then show ?case by (simp add: distinct_remdups_id)
next
  case (Cons k ks)
  show ?case
  proof (cases "k \<in> set seen")
    case True
    have "remdups (rev ks @ k # rev seen) = remdups (rev ks @ rev seen)"
      using True by (simp add: remdups_drop_seen)
    with Cons True show ?thesis by simp
  next
    case False
    with Cons show ?thesis by simp
  qed
qed

lemma encounter_append: "encounter seen (ks @ ks') = encounter (encounter seen ks) ks'"
  by (induction ks arbitrary: seen) auto

lemma distinct_encounter: "distinct seen \<Longrightarrow> distinct (encounter seen ks)"
  by (simp add: encounter_remdups)

lemma set_encounter: "set (encounter seen ks) = set seen \<union> set ks"
  by (induction ks arbitrary: seen) auto

lemma keys_add_votes:
  "map fst (add_votes items party_votes) = encounter (map fst party_votes) (map fst items)"
  by (induction items party_votes rule: add_votes.induct) (auto simp: update_keys)

lemma map_of_add_votes:
  "map_of (add_votes items party_votes) party =
     (if party \<in> fst ` set items \<or> party \<in> fst ` set party_votes
      then Some ((case map_of party_votes party of None \<Rightarrow> 0 | Some t \<Rightarrow> t) + votes_for party items)
      else None)"
proof (induction items party_votes rule: add_votes.induct)
  case (1 party_votes)
  then show ?case
    by (auto simp: votes_for_def map_of_eq_None_iff split: option.splits)
next
  case (2 p votes items party_votes)
  then show ?case
    by (auto simp: votes_for_def update_conv' dom_update map_of_eq_None_iff split: option.splits)
qed

lemma sum_votes_totals:
  "list_all has_party_dict districts \<Longrightarrow>
   \<exists>totals. sum_votes districts party_votes = Inr totals
     \<and> map fst totals =
         encounter (map fst party_votes) (concat (map (\<lambda>d. map fst (record_items d)) districts))
     \<and> (\<forall>party \<in> set (map fst totals).
          map_of totals party =
            Some ((case map_of party_votes party of None \<Rightarrow> 0 | Some t \<Rightarrow> t)
                  + total_votes party districts))"
proof (induction districts arbitrary: party_votes)
  case Nil
  then show ?case
    by (auto simp: total_votes_def map_of_eq_None_iff image_iff split: option.splits)
next
  case (Cons d districts)
  from Cons.prems have hd: "has_party_dict d" and rest: "list_all has_party_dict districts"
    by simp_all
  from hd obtain items where items: "political_parties_votes d = Some items"
    and dist: "distinct (map fst items)"
    by (auto simp: has_party_dict_def split: option.splits)
  from Cons.IH [OF rest, of "add_votes items party_votes"] obtain totals where
    t1: "sum_votes districts (add_votes items party_votes) = Inr totals" and
    t2: "map fst totals = encounter (map fst (add_votes items party_votes))
           (concat (map (\<lambda>d. map fst (record_items d)) districts))" and
    t3: "\<forall>party \<in> set (map fst totals). map_of totals party =
           Some ((case map_of (add_votes items party_votes) party of None \<Rightarrow> 0 | Some t \<Rightarrow> t)
                 + total_votes party districts)"
    by blast
  have ri: "record_items d = items" by (simp add: record_items_def items)
  have "sum_votes (d # districts) party_votes = Inr totals"
    using t1 items by simp
  moreover have "map fst totals = encounter (map fst party_votes)
      (concat (map (\<lambda>d. map fst (record_items d)) (d # districts)))"
    using t2 by (simp add: keys_add_votes encounter_append ri)
  moreover have "\<forall>party \<in> set (map fst totals). map_of totals party =
      Some ((case map_of party_votes party of None \<Rightarrow> 0 | Some t \<Rightarrow> t)
            + total_votes party (d # districts))"
  proof
    fix party assume p: "party \<in> set (map fst totals)"
    have v: "votes_for party items = votes_in d party"
      by (simp add: votes_in_def ri votes_for_distinct [OF dist])
    from t3 p have t: "map_of totals party =
        Some ((case map_of (add_votes items party_votes) party of None \<Rightarrow> 0 | Some t \<Rightarrow> t)
              + total_votes party districts)"
      by blast
    show "map_of totals party =
      Some ((case map_of party_votes party of None \<Rightarrow> 0 | Some t \<Rightarrow> t)
            + total_votes party (d # districts))"
    proof (cases "party \<in> fst ` set items \<or> party \<in> fst ` set party_votes")
      case True
      with t v show ?thesis
        by (simp add: map_of_add_votes total_votes_def)
    next
      case False
      then have "map_of items party = None" "map_of party_votes party = None"
        by (simp_all add: map_of_eq_None_iff)
      with t False ri show ?thesis
        by (simp add: map_of_add_votes total_votes_def votes_in_def)
    qed
  qed
  ultimately show ?case by blast
qed

text \<open>Reversing, sorting and reversing again is the stable sort on the descending key.\<close>

lemma sorted_reverse_stable:
  "sorted_reverse key xs = sort_key (\<lambda>x. - key x) xs"
proof -
  let ?zs = "sort_key key (rev xs)"
  have "sort_key (\<lambda>x. - key x) xs = rev ?zs"
  proof (rule properties_for_sort_key)
    show "mset (rev ?zs) = mset xs" by simp
  next
    fix k
    have "filter (\<lambda>x. key x = key k) ?zs = filter (\<lambda>x. key x = key k) (rev xs)"
      by (rule sort_key_stable)
    then have "rev (filter (\<lambda>x. key x = key k) ?zs) = rev (filter (\<lambda>x. key x = key k) (rev xs))"
      by simp
    then have "filter (\<lambda>x. key x = key k) (rev ?zs) = filter (\<lambda>x. key x = key k) xs"
      by (simp add: rev_filter)
    moreover have "(\<lambda>x. - key k = - key x) = (\<lambda>x. key x = key k)"
      by auto
    ultimately show "filter (\<lambda>x. - key k = - key x) (rev ?zs) = filter (\<lambda>x. - key k = - key x) xs"
      by simp
  next
    have "sorted (map key ?zs)" by simp
    then have "sorted_wrt (\<lambda>x y. key x \<le> key y) ?zs"
      by (simp add: sorted_wrt_map)
    then have "sorted_wrt (\<lambda>x y. - key y \<le> - key x) ?zs"
      by simp
    then show "sorted (map (\<lambda>x. - key x) (rev ?zs))"
      by (simp add: sorted_wrt_map sorted_wrt_rev)
  qed
  then show ?thesis by (simp add: sorted_reverse_def)
qed

lemma sorted_take_drop:
  fixes f :: "'a \<Rightarrow> int"
  assumes "sorted (map f ys)" "x \<in> set (take n ys)" "y \<in> set (drop n ys)"
  shows "f x \<le> f y"
proof -
  have "sorted (map f (take n ys) @ map f (drop n ys))"
    using assms(1) by (simp flip: map_append)
  then show ?thesis
    using assms(2,3) by (auto simp: sorted_append)
qed

lemma distinct_keys_sort_key:
  "distinct (map fst xs) \<Longrightarrow> distinct (map fst (take n (sort_key f xs)))"
proof -
  assume d: "distinct (map fst xs)"
  have "mset (map fst (sort_key f xs)) = mset (map fst xs)" by simp
  then have "distinct (map fst (sort_key f xs))"
    using d by (metis distinct_count_atmost_1 set_mset_mset)
  then show ?thesis by (simp flip: take_map)
qed

text \<open>
  C7: for a result set whose records all have a party dict, the chart renderer of both
  scripts sums each party's votes over all records (\<open>0\<close> where the party is absent), in
  the order the parties are first encountered, and draws the first ten of the stable sort
  on the descending total: none of the others has a larger total than one of the ten,
  and parties with equal totals keep their encounter order.
\<close>

theorem C7_chart_totals_and_top_10:
  assumes "list_all has_party_dict (map snd data)"
  shows "\<exists>totals.
      sum_votes (map snd data) [] = Inr totals
    \<and> map fst totals = encounter [] (concat (map (\<lambda>d. map fst (record_items d)) (map snd data)))
    \<and> (\<forall>party \<in> set (map fst totals).
         map_of totals party = Some (total_votes party (map snd data)))
    \<and> top_10_parties data = Inr (take 10 (sort_key (\<lambda>item. - snd item) totals))
    \<and> (\<forall>x \<in> set (take 10 (sort_key (\<lambda>item. - snd item) totals)).
        \<forall>y \<in> set (drop 10 (sort_key (\<lambda>item. - snd item) totals)). snd y \<le> snd x)
    \<and> (\<forall>t. filter (\<lambda>item. snd item = t) (sort_key (\<lambda>item. - snd item) totals)
           = filter (\<lambda>item. snd item = t) totals)"
proof -
  from sum_votes_totals [OF assms, of "[]"] have "\<exists>totals.
      sum_votes (map snd data) [] = Inr totals
    \<and> map fst totals = encounter [] (concat (map (\<lambda>d. map fst (record_items d)) (map snd data)))
    \<and> (\<forall>party \<in> set (map fst totals).
         map_of totals party = Some (total_votes party (map snd data)))"
    by (simp only: list.map map_of.simps option.case add_0)
  then obtain totals where
    t1: "sum_votes (map snd data) [] = Inr totals" and
    t2: "map fst totals = encounter [] (concat (map (\<lambda>d. map fst (record_items d)) (map snd data)))" and
    t3: "\<forall>party \<in> set (map fst totals). map_of totals party = Some (total_votes party (map snd data))"
    by blast
  let ?sorted = "sort_key (\<lambda>item. - snd item) totals"
  have "distinct (map fst totals)"
    by (simp only: t2 distinct_encounter distinct.simps)
  then have "dict (take 10 ?sorted) = take 10 ?sorted"
    by (intro dict_distinct distinct_keys_sort_key)
  then have t4: "top_10_parties data = Inr (take 10 ?sorted)"
    by (simp add: top_10_parties_def t1 sorted_reverse_stable)
  have t5: "\<forall>x \<in> set (take 10 ?sorted). \<forall>y \<in> set (drop 10 ?sorted). snd y \<le> snd x"
  proof (intro ballI)
    fix x y assume "x \<in> set (take 10 ?sorted)" "y \<in> set (drop 10 ?sorted)"
    moreover have "sorted (map (\<lambda>item. - snd item) ?sorted)" by simp
    ultimately have "- snd x \<le> - snd y" by (rule sorted_take_drop [rotated])
    then show "snd y \<le> snd x" by simp
  qed
  have t6: "\<forall>t. filter (\<lambda>item. snd item = t) ?sorted = filter (\<lambda>item. snd item = t) totals"
  proof
    fix t
    have "filter (\<lambda>item. - snd item = - t) ?sorted = filter (\<lambda>item. - snd item = - t) totals"
      by (rule sort_key_stable)
    then show "filter (\<lambda>item. snd item = t) ?sorted = filter (\<lambda>item. snd item = t) totals"
      by simp
  qed
  from t1 t2 t3 t4 t5 t6 show ?thesis by blast
qed

text \<open>The example of the claim: totals A = 17 and B = 3, and A before B.\<close>

theorem C7_chart_example_witness:
  "list_all has_party_dict (map snd chart_example)
   \<and> sum_votes (map snd chart_example) [] = Inr [(''A'', 17), (''B'', 3)]
   \<and> total_votes ''A'' (map snd chart_example) = 17
   \<and> total_votes ''B'' (map snd chart_example) = 3
   \<and> top_10_parties chart_example = Inr [(''A'', 17), (''B'', 3)]"
proof -
  have h: "list_all has_party_dict (map snd chart_example)"
    by (simp add: chart_example_def has_party_dict_def empty_district_def)
  have s: "sum_votes (map snd chart_example) [] = Inr [(''A'', 17), (''B'', 3)]"
    by (simp add: chart_example_def empty_district_def)
  from C7_chart_totals_and_top_10 [OF h] obtain totals where
    t: "sum_votes (map snd chart_example) [] = Inr totals" and
    m: "\<forall>party \<in> set (map fst totals).
           map_of totals party = Some (total_votes party (map snd chart_example))" and
    p: "top_10_parties chart_example = Inr (take 10 (sort_key (\<lambda>item. - snd item) totals))"
    by blast
  from t s have totals: "totals = [(''A'', 17), (''B'', 3)]" by simp
  from m have "map_of totals ''A'' = Some (total_votes ''A'' (map snd chart_example))"
    and "map_of totals ''B'' = Some (total_votes ''B'' (map snd chart_example))"
    by (simp_all add: totals)
  then have "total_votes ''A'' (map snd chart_example) = 17"
    and "total_votes ''B'' (map snd chart_example) = 3"
    by (simp_all add: totals)
  moreover from p have "top_10_parties chart_example = Inr [(''A'', 17), (''B'', 3)]"
    by (simp add: totals)
  ultimately show ?thesis using h s by simp
qed

text \<open>
  The refactored link extractor never raises: it warns once for each cell without a
  link or a non-empty attribute and returns the URLs of the others, in document order.
\<close>

lemma extract_all_district_links_eq:
  "extract_all_district_links soup =
     (replicate (length (filter (\<lambda>c. cell_href c = None) (link_cells soup))) LinkWarning,
      Return (map (\<lambda>h. base_url @ h) (List.map_filter cell_href (link_cells soup))))"
  by (simp add: extract_all_district_links_def links_loop_eq)

text \<open>
  C3: a cell whose hyperlink or reference attribute is missing is claimed to be skipped
  with a warning. The first script raises instead: \<open>AttributeError\<close> for the missing
  hyperlink, \<open>ValueError\<close> for the missing attribute, neither of them handled, and
  \<open>global_data\<close> ends with the exception whatever the library. The refactored script
  warns and returns both links on the same page.
\<close>

theorem C3_first_script_aborts_on_cell_without_link:
  "all_district_links_v1 (index_page [None]) = ([], Raise AttributeError)
   \<and> all_district_links_v1 (index_page [Some Map.empty]) = ([], Raise ValueError)
   \<and> all_district_links_v1 (index_page [cell1, None, cell2]) = ([], Raise AttributeError)
   \<and> global_data_v1 lib (index_page [cell1, None, cell2]) = ([], Raise AttributeError)
   \<and> extract_all_district_links (index_page [cell1, None, cell2]) = ([LinkWarning], Return [link1, link2])"
  by (simp add: all_district_links_v1_def global_data_v1_def index_page_def link_try_v1_def
      cell1_def cell2_def raise_def return_def extract_all_district_links_def collect_url_def
      link1_def link2_def bind_io_def print_def)

lemma zip_take_votes: "zip names votes = zip (take (length votes) names) votes"
  by (induction names arbitrary: votes) (auto split: list.splits simp: zip_Cons1)

text \<open>
  C10 as stated fails: with two names and vote cells \<open>1\<close> and \<open>x\<close>, one vote cell is
  parsed, yet the first script returns the empty dict and the refactored one raises.
\<close>

theorem C10_unparsed_vote_cell_counterexample:
  "length (party_cells votes_page) = 2
   \<and> length (filter (parses (example_library Map.empty)) (vote_cells votes_page)) = 1
   \<and> get_votes_of_parties_v1 (example_library Map.empty) votes_page = ([VotesError ValueError], Return [])
   \<and> get_votes_of_parties (example_library Map.empty) votes_page = ([], Raise ValueError)"
  by (simp add: votes_page_def district_page_def parses_def example_library_def example_int_def
      get_votes_of_parties_v1_def get_votes_of_parties_def strip_def isspace_def clean_data_def
      raise_def return_def try_except_def bind_io_def print_def)

text \<open>
  C10, amended: when every vote cell is parsed, the mapping is the dict of the names
  zipped with the counts, nothing is printed, the pairs number the minimum of the two
  lengths (the names beyond the last vote cell are dropped), and a name paired twice
  keeps its last count. When a vote cell is not parsed there is no pair at all: the
  first script prints the error and returns the empty dict, the refactored one raises
  \<open>ValueError\<close>. Without party names the refactored script returns \<open>None\<close>.
\<close>

theorem C10_votes_zip:
  "(list_all (parses lib) (vote_cells soup) \<longrightarrow>
      (\<exists>votes. map Some votes = map (\<lambda>v. py_int lib (clean_data (strip v))) (vote_cells soup)
         \<and> get_votes_of_parties_v1 lib soup
             = ([], Return (dict (zip (map strip (party_cells soup)) votes)))
         \<and> (party_cells soup \<noteq> [] \<longrightarrow>
              get_votes_of_parties lib soup
                = ([], Return (Some (dict (zip (map strip (party_cells soup)) votes)))))
         \<and> length (zip (map strip (party_cells soup)) votes)
             = min (length (party_cells soup)) (length (vote_cells soup))
         \<and> zip (map strip (party_cells soup)) votes
             = zip (take (length (vote_cells soup)) (map strip (party_cells soup))) votes
         \<and> map_of (dict (zip (map strip (party_cells soup)) votes))
             = map_of (rev (zip (map strip (party_cells soup)) votes))
         \<and> distinct (map fst (dict (zip (map strip (party_cells soup)) votes)))))
   \<and> (\<not> list_all (parses lib) (vote_cells soup) \<longrightarrow>
        get_votes_of_parties_v1 lib soup = ([VotesError ValueError], Return [])
        \<and> (party_cells soup \<noteq> [] \<longrightarrow> get_votes_of_parties lib soup = ([], Raise ValueError)))
   \<and> (party_cells soup = [] \<longrightarrow> get_votes_of_parties lib soup = ([], Return None))"
proof (intro conjI impI)
  assume "list_all (parses lib) (vote_cells soup)"
  then obtain votes where v: "votes_count lib (vote_cells soup) = Some votes"
    using votes_count_Some_iff [of lib "vote_cells soup"] by blast
  let ?names = "map strip (party_cells soup)"
  have l: "length votes = length (vote_cells soup)"
    using v by (rule votes_count_length)
  have "map Some votes = map (\<lambda>v. py_int lib (clean_data (strip v))) (vote_cells soup)"
    using v by (rule votes_count_map)
  moreover have "get_votes_of_parties_v1 lib soup = ([], Return (dict (zip ?names votes)))"
    by (simp add: get_votes_of_parties_v1_def v) (simp add: return_def)
  moreover have "party_cells soup \<noteq> [] \<longrightarrow>
      get_votes_of_parties lib soup = ([], Return (Some (dict (zip ?names votes))))"
    by (simp add: get_votes_of_parties_def v return_def)
  moreover have "length (zip ?names votes) = min (length (party_cells soup)) (length (vote_cells soup))"
    by (simp add: l)
  moreover have "zip ?names votes = zip (take (length (vote_cells soup)) ?names) votes"
    using zip_take_votes [of ?names votes] by (simp add: l)
  moreover have "map_of (dict (zip ?names votes)) = map_of (rev (zip ?names votes))"
    by (rule map_of_dict)
  moreover have "distinct (map fst (dict (zip ?names votes)))"
    by (rule distinct_dict)
  ultimately show "\<exists>votes. map Some votes = map (\<lambda>v. py_int lib (clean_data (strip v))) (vote_cells soup)
         \<and> get_votes_of_parties_v1 lib soup
             = ([], Return (dict (zip (map strip (party_cells soup)) votes)))
         \<and> (party_cells soup \<noteq> [] \<longrightarrow>
              get_votes_of_parties lib soup
                = ([], Return (Some (dict (zip (map strip (party_cells soup)) votes)))))
         \<and> length (zip (map strip (party_cells soup)) votes)
             = min (length (party_cells soup)) (length (vote_cells soup))
         \<and> zip (map strip (party_cells soup)) votes
             = zip (take (length (vote_cells soup)) (map strip (party_cells soup))) votes
         \<and> map_of (dict (zip (map strip (party_cells soup)) votes))
             = map_of (rev (zip (map strip (party_cells soup)) votes))
         \<and> distinct (map fst (dict (zip (map strip (party_cells soup)) votes)))"
    by blast
next
  assume "\<not> list_all (parses lib) (vote_cells soup)"
  then have n: "votes_count lib (vote_cells soup) = None"
    by (simp add: votes_count_None_iff)
  show "get_votes_of_parties_v1 lib soup = ([VotesError ValueError], Return [])"
    by (simp add: get_votes_of_parties_v1_def n) (simp add: return_def)
  show "get_votes_of_parties lib soup = ([], Raise ValueError)" if "party_cells soup \<noteq> []"
    using that by (simp add: get_votes_of_parties_def n raise_def)
next
  assume "party_cells soup = []"
  then show "get_votes_of_parties lib soup = ([], Return None)"
    by (simp add: get_votes_of_parties_def return_def)
qed

theorem C10_votes_zip_witness:
  "list_all (parses (example_library Map.empty)) (vote_cells zip_page)
   \<and> party_cells zip_page \<noteq> []
   \<and> get_votes_of_parties_v1 (example_library Map.empty) zip_page = ([], Return [(''A'', 3), (''B'', 2)])
   \<and> get_votes_of_parties (example_library Map.empty) zip_page = ([], Return (Some [(''A'', 3), (''B'', 2)]))
   \<and> \<not> list_all (parses (example_library Map.empty)) (vote_cells votes_page)
   \<and> party_cells votes_page \<noteq> []
   \<and> get_votes_of_parties (example_library Map.empty) votes_page = ([], Raise ValueError)
   \<and> party_cells (index_page []) = []
   \<and> get_votes_of_parties (example_library Map.empty) (index_page []) = ([], Return None)"
proof -
  let ?L = "example_library Map.empty"
  have h: "list_all (parses ?L) (vote_cells zip_page)"
    by (simp add: zip_page_def district_page_def parses_def example_library_def example_int_def
        strip_def isspace_def clean_data_def)
  have p: "party_cells zip_page \<noteq> []"
    by (simp add: zip_page_def district_page_def)
  from C10_votes_zip [of ?L zip_page] h p obtain votes where
    m: "map Some votes = map (\<lambda>v. py_int ?L (clean_data (strip v))) (vote_cells zip_page)" and
    v1: "get_votes_of_parties_v1 ?L zip_page
           = ([], Return (dict (zip (map strip (party_cells zip_page)) votes)))" and
    v2: "get_votes_of_parties ?L zip_page
           = ([], Return (Some (dict (zip (map strip (party_cells zip_page)) votes))))"
    by blast
  from m have votes: "votes = [1, 2, 3]"
    by (auto simp: zip_page_def district_page_def example_library_def example_int_def
        strip_def isspace_def clean_data_def map_eq_Cons_conv)
  have d: "dict (zip (map strip (party_cells zip_page)) votes) = [(''A'', 3), (''B'', 2)]"
    by (simp add: votes zip_page_def district_page_def strip_def isspace_def dict_def)
  have n: "\<not> list_all (parses ?L) (vote_cells votes_page)"
    by (simp add: votes_page_def district_page_def parses_def example_library_def example_int_def
        strip_def isspace_def clean_data_def)
  have q: "party_cells votes_page \<noteq> []"
    by (simp add: votes_page_def district_page_def)
  from C10_votes_zip [of ?L votes_page] n q
  have r: "get_votes_of_parties ?L votes_page = ([], Raise ValueError)"
    by blast
  have e: "party_cells (index_page []) = []"
    by (simp add: index_page_def)
  from C10_votes_zip [of ?L "index_page []"] e
  have "get_votes_of_parties ?L (index_page []) = ([], Return None)"
    by blast
  with h p v1 v2 d n q r e show ?thesis by simp
qed

lemma returns_iff: "returns m \<longleftrightarrow> (\<exists>out x. m = (out, Return x))"
  by (cases m) (auto simp: returns_def split: outcome.splits)

lemma no_exit_iff: "no_exit m \<longleftrightarrow> (\<forall>out n. m \<noteq> (out, Exit n))"
  by (cases m) (auto simp: no_exit_def split: outcome.splits)

lemma fst_snd_io [simp]:
  "fst (return x) = []" "snd (return x) = Return x"
  "fst (raise e) = []" "snd (raise e) = Raise e"
  "fst (print msg) = [msg]" "snd (print msg) = Return ()"
  by (simp_all add: return_def raise_def print_def)

lemma returns_simps [simp]:
  "returns (return x)" "returns (print msg)" "returns (out, Return x)"
  "\<not> returns (raise e)" "\<not> returns (out, Raise e)" "\<not> returns (out, Exit n)"
  by (simp_all add: returns_def)

lemma no_exit_simps [simp]:
  "no_exit (return x)" "no_exit (print msg)" "no_exit (out, Return x)"
  "no_exit (raise e)" "no_exit (out, Raise e)" "\<not> no_exit (out, Exit n)" "no_exit (lift r)"
  by (simp_all add: no_exit_def lift_def split: sum.splits)

lemma returns_snd [simp]: "returns (out, snd m) = returns m"
  by (simp add: returns_def)

lemma no_exit_snd [simp]: "no_exit (out, snd m) = no_exit m"
  by (simp add: no_exit_def)

lemma returns_print_bind: "returns (bind_io (print msg) f) = returns (f ())"
  by (simp add: returns_def)

lemma returns_no_exit: "returns m \<Longrightarrow> no_exit m"
  by (auto simp: returns_iff no_exit_iff)

lemma returns_bind:
  assumes "returns m" and "\<And>x. returns (f x)"
  shows "returns (bind_io m f)"
proof -
  from assms(1) obtain out x where m: "m = (out, Return x)"
    by (auto simp: returns_iff)
  from assms(2) [of x] obtain out' y where "f x = (out', Return y)"
    by (auto simp: returns_iff)
  with m show ?thesis by (simp add: bind_io_def)
qed

lemma no_exit_bind:
  assumes "no_exit m" and "\<And>x. no_exit (f x)"
  shows "no_exit (bind_io m f)"
proof (cases m)
  case (Pair out r)
  show ?thesis
  proof (cases r)
    case (Return x)
    with assms(2) [of x] Pair show ?thesis
      by (cases "f x") (auto simp: bind_io_def no_exit_iff)
  next
    case (Raise e)
    with Pair show ?thesis by simp
  next
    case (Exit n)
    with Pair assms(1) show ?thesis by simp
  qed
qed

lemma returns_try_except:
  assumes "no_exit body" and "\<And>e. returns (handler e)"
  shows "returns (try_except body handler)"
proof (cases body)
  case (Pair out r)
  show ?thesis
  proof (cases r)
    case (Return x)
    with Pair show ?thesis by (simp add: try_except_def)
  next
    case (Raise e)
    from assms(2) [of e] obtain out' y where "handler e = (out', Return y)"
      by (auto simp: returns_iff)
    with Pair Raise show ?thesis by (simp add: try_except_def)
  next
    case (Exit n)
    with Pair assms(1) show ?thesis by simp
  qed
qed

lemma returns_headers_loop: "returns (headers_loop warn lib soup hs d)"
  by (induction hs arbitrary: d) (auto intro!: returns_bind split: option.splits)

lemma get_soup_failure:
  "http_get lib url = Inl (cls, txt) \<Longrightarrow> get_soup lib url = ([FetchFailed url cls txt], Exit 1)"
  by (simp add: get_soup_def)

lemma get_soup_success: "http_get lib url = Inr soup \<Longrightarrow> get_soup lib url = return soup"
  by (simp add: get_soup_def)

lemma no_exit_get_votes: "no_exit (get_votes_of_parties lib soup)"
  by (simp add: get_votes_of_parties_def Let_def split: option.splits)

lemma returns_get_votes_v1: "returns (get_votes_of_parties_v1 lib soup)"
  by (simp add: get_votes_of_parties_v1_def Let_def split: option.splits)

lemma returns_counts:
  "returns (bind_io (headers_loop warn lib soup hs d) (\<lambda>d. return (g d)))"
  by (rule returns_bind, rule returns_headers_loop) simp

lemma no_exit_extract_district_data: "no_exit (extract_district_data lib soup district)"
proof -
  have v: "no_exit (bind_io (get_votes_of_parties lib soup) (\<lambda>votes.
             bind_io (extract_headers_data lib (d votes) soup headers) (\<lambda>d. return (Some d))))" for d
    unfolding extract_headers_data_def
    by (rule no_exit_bind, rule no_exit_get_votes, rule returns_no_exit, rule returns_counts)
  show ?thesis
    unfolding extract_district_data_def
    by (rule no_exit_bind, simp) (simp add: v split: option.splits)
qed

lemma district_step_failure:
  "http_get lib link = Inl (cls, txt) \<Longrightarrow> district_step lib link = ([FetchFailed link cls txt], Exit 1)"
  by (simp add: district_step_def district_try_def get_soup_failure try_except_def)

lemma global_data_step_failure:
  "http_get lib link = Inl (cls, txt) \<Longrightarrow> global_data_step lib link = ([FetchFailed link cls txt], Exit 1)"
  by (simp add: global_data_step_def get_soup_failure)

lemma district_step_returns: "fetched lib link \<Longrightarrow> returns (district_step lib link)"
proof -
  assume "fetched lib link"
  then obtain soup where s: "http_get lib link = Inr soup"
    by (auto simp: fetched_def split: sum.splits)
  have "no_exit (district_try lib link)"
    unfolding district_try_def get_soup_success [OF s] bind_io_return
    by (intro no_exit_bind no_exit_simps)
       (auto intro!: no_exit_bind no_exit_extract_district_data split: option.splits)
  then show ?thesis
    unfolding district_step_def by (rule returns_try_except) simp
qed

lemma global_data_step_returns: "fetched lib link \<Longrightarrow> returns (global_data_step lib link)"
proof -
  assume "fetched lib link"
  then obtain soup where s: "http_get lib link = Inr soup"
    by (auto simp: fetched_def split: sum.splits)
  have body: "no_exit (bind_io (lift (get_code_from_url lib link)) (\<lambda>code.
      case code of
        None \<Rightarrow> bind_io (print (CodeNotFound link)) (\<lambda>_. return None)
      | Some c \<Rightarrow>
          bind_io (get_votes_of_parties_v1 lib soup) (\<lambda>votes.
          bind_io (headers_loop CellNotFound_v1 lib soup headers (d votes)) (\<lambda>d.
          return (Some (c, d))))))" for d
  proof (rule no_exit_bind, simp)
    fix code :: "string option"
    show "no_exit (case code of
        None \<Rightarrow> bind_io (print (CodeNotFound link)) (\<lambda>_. return None)
      | Some c \<Rightarrow>
          bind_io (get_votes_of_parties_v1 lib soup) (\<lambda>votes.
          bind_io (headers_loop CellNotFound_v1 lib soup headers (d votes)) (\<lambda>d.
          return (Some (c, d)))))"
    proof (cases code)
      case None
      then show ?thesis by simp
    next
      case (Some c)
      have "returns (bind_io (get_votes_of_parties_v1 lib soup) (\<lambda>votes.
          bind_io (headers_loop CellNotFound_v1 lib soup headers (d votes)) (\<lambda>d.
          return (Some (c, d)))))"
        by (rule returns_bind, rule returns_get_votes_v1, rule returns_counts)
      with Some show ?thesis by (simp add: returns_no_exit)
    qed
  qed
  show ?thesis
    unfolding global_data_step_def get_soup_success [OF s] bind_io_return
    by (auto intro!: returns_try_except body split: option.splits sum.splits
        simp: returns_print_bind simp del: bind_io_print)
qed

lemma districts_loop_returns:
  "list_all (\<lambda>l. returns (step l)) links \<Longrightarrow>
   districts_loop step links all_data =
     (concat (map (\<lambda>l. fst (step l)) links),
      Return (foldl (\<lambda>a l. insert_record (yield step l) a) all_data links))"
proof (induction links arbitrary: all_data)
  case Nil
  then show ?case by (simp add: return_def)
next
  case (Cons l links)
  from Cons.prems obtain out r where l: "step l = (out, Return r)"
    by (auto simp: returns_iff)
  from Cons.prems have "list_all (\<lambda>l. returns (step l)) links" by simp
  from Cons.IH [OF this] l show ?case
    by (simp add: bind_io_Return yield_def)
qed

lemma districts_loop_exit:
  "list_all (\<lambda>l. returns (step l)) pre \<Longrightarrow> step link = (out, Exit n) \<Longrightarrow>
   districts_loop step (pre @ link # post) all_data
     = (concat (map (\<lambda>l. fst (step l)) pre) @ out, Exit n)"
proof (induction pre arbitrary: all_data)
  case Nil
  then show ?case by simp
next
  case (Cons l pre)
  from Cons.prems obtain out' r where l: "step l = (out', Return r)"
    by (auto simp: returns_iff)
  from Cons.prems have "list_all (\<lambda>l. returns (step l)) pre" by simp
  from Cons.IH [OF this Cons.prems(2)] l show ?case
    by (simp add: bind_io_Return)
qed

lemma run_index_failure:
  "http_get lib url = Inl (cls, txt) \<Longrightarrow>
   run scrape export plot lib fs url filename
     = (fs, ([Downloading url, FetchFailed url cls txt], Exit 1))"
  by (simp add: run_def get_soup_failure)

lemma run_scrape_exit:
  "http_get lib url = Inr soup \<Longrightarrow> scrape soup = (out, Exit n) \<Longrightarrow>
   run scrape export plot lib fs url filename = (fs, (Downloading url # out, Exit n))"
  by (simp add: run_def get_soup_success)

lemma fetched_prefix:
  "list_all (fetched lib) pre \<Longrightarrow> list_all (\<lambda>l. returns (district_step lib l)) pre"
  "list_all (fetched lib) pre \<Longrightarrow> list_all (\<lambda>l. returns (global_data_step lib l)) pre"
  by (simp_all add: list_all_iff district_step_returns global_data_step_returns)

text \<open>
  C5: when the request for the index page fails, \<open>get_soup\<close> prints the line naming the
  URL, the class and the text of the error, and both scripts end with exit status 1,
  the file system untouched. The same holds when the request for a district link fails
  after links that were fetched. A link that is fetched always ends its pass normally:
  every exception raised on the way is handled there, and the loop goes on.
\<close>

theorem C5_fetch_failure_is_fatal:
  "(http_get lib url = Inl (cls, txt) \<longrightarrow>
      get_soup lib url = ([FetchFailed url cls txt], Exit 1)
      \<and> elections_scraper lib fs url filename
          = (fs, ([Downloading url, FetchFailed url cls txt], Exit 1))
      \<and> elections_scraper_v1 lib fs url filename
          = (fs, ([Downloading url, FetchFailed url cls txt], Exit 1)))
   \<and> (http_get lib url = Inr soup \<and> list_all (fetched lib) pre \<and> http_get lib link = Inl (cls, txt)
        \<and> snd (extract_all_district_links soup) = Return (pre @ link # post) \<longrightarrow>
        (\<exists>out. elections_scraper lib fs url filename
                 = (fs, (out @ [FetchFailed link cls txt], Exit 1))))
   \<and> (http_get lib url = Inr soup \<and> list_all (fetched lib) pre \<and> http_get lib link = Inl (cls, txt)
        \<and> snd (all_district_links_v1 soup) = Return (pre @ link # post) \<longrightarrow>
        (\<exists>out. elections_scraper_v1 lib fs url filename
                 = (fs, (out @ [FetchFailed link cls txt], Exit 1))))
   \<and> (fetched lib link \<longrightarrow>
        (\<exists>out r. district_step lib link = (out, Return r))
        \<and> (\<exists>out r. global_data_step lib link = (out, Return r)))"
proof (intro conjI impI)
  assume f: "http_get lib url = Inl (cls, txt)"
  then show "get_soup lib url = ([FetchFailed url cls txt], Exit 1)"
    by (rule get_soup_failure)
  from f show "elections_scraper lib fs url filename
      = (fs, ([Downloading url, FetchFailed url cls txt], Exit 1))"
    by (simp add: elections_scraper_def run_index_failure)
  from f show "elections_scraper_v1 lib fs url filename
      = (fs, ([Downloading url, FetchFailed url cls txt], Exit 1))"
    by (simp add: elections_scraper_v1_def run_index_failure)
next
  assume a: "http_get lib url = Inr soup \<and> list_all (fetched lib) pre \<and> http_get lib link = Inl (cls, txt)
    \<and> snd (extract_all_district_links soup) = Return (pre @ link # post)"
  then obtain w where w: "extract_all_district_links soup = (w, Return (pre @ link # post))"
    by (cases "extract_all_district_links soup") auto
  from a have "districts_loop (district_step lib) (pre @ link # post) []
      = (concat (map (\<lambda>l. fst (district_step lib l)) pre) @ [FetchFailed link cls txt], Exit 1)"
    by (intro districts_loop_exit fetched_prefix district_step_failure) simp_all
  then have "extract_all_districts_data lib soup
      = (w @ concat (map (\<lambda>l. fst (district_step lib l)) pre) @ [FetchFailed link cls txt], Exit 1)"
    by (simp add: extract_all_districts_data_def w bind_io_Return)
  with a have "elections_scraper lib fs url filename
      = (fs, ((Downloading url # w @ concat (map (\<lambda>l. fst (district_step lib l)) pre))
               @ [FetchFailed link cls txt], Exit 1))"
    by (simp add: elections_scraper_def run_scrape_exit)
  then show "\<exists>out. elections_scraper lib fs url filename
      = (fs, (out @ [FetchFailed link cls txt], Exit 1))"
    by blast
next
  assume a: "http_get lib url = Inr soup \<and> list_all (fetched lib) pre \<and> http_get lib link = Inl (cls, txt)
    \<and> snd (all_district_links_v1 soup) = Return (pre @ link # post)"
  then obtain w where w: "all_district_links_v1 soup = (w, Return (pre @ link # post))"
    by (cases "all_district_links_v1 soup") auto
  from a have "districts_loop (global_data_step lib) (pre @ link # post) []
      = (concat (map (\<lambda>l. fst (global_data_step lib l)) pre) @ [FetchFailed link cls txt], Exit 1)"
    by (intro districts_loop_exit fetched_prefix global_data_step_failure) simp_all
  then have "global_data_v1 lib soup
      = (w @ concat (map (\<lambda>l. fst (global_data_step lib l)) pre) @ [FetchFailed link cls txt], Exit 1)"
    by (simp add: global_data_v1_def w bind_io_Return)
  with a have "elections_scraper_v1 lib fs url filename
      = (fs, ((Downloading url # w @ concat (map (\<lambda>l. fst (global_data_step lib l)) pre))
               @ [FetchFailed link cls txt], Exit 1))"
    by (simp add: elections_scraper_v1_def run_scrape_exit)
  then show "\<exists>out. elections_scraper_v1 lib fs url filename
      = (fs, (out @ [FetchFailed link cls txt], Exit 1))"
    by blast
next
  assume f: "fetched lib link"
  from district_step_returns [OF f] show "\<exists>out r. district_step lib link = (out, Return r)"
    by (simp add: returns_iff)
  from global_data_step_returns [OF f] show "\<exists>out r. global_data_step lib link = (out, Return r)"
    by (simp add: returns_iff)
qed

lemma example_urls [simp]:
  "link1 \<noteq> link2" "link2 \<noteq> link1" "index_url \<noteq> link1" "index_url \<noteq> link2"
  "link1 \<noteq> index_url" "link2 \<noteq> index_url"
  "link1b \<noteq> link1" "link1b \<noteq> link2" "link1 \<noteq> link1b" "link2 \<noteq> link1b"
  by (simp_all add: link1_def link2_def link1b_def index_url_def)

theorem C5_fetch_failure_witness:
  "http_get (example_library broken_site) ''x'' = Inl (''ConnectionError'', ''unreachable'')
   \<and> elections_scraper (example_library broken_site) empty_fs ''x'' ''out''
       = (empty_fs, ([Downloading ''x'', FetchFailed ''x'' ''ConnectionError'' ''unreachable''], Exit 1))
   \<and> http_get (example_library broken_site) index_url = Inr (index_page [cell1, cell2])
   \<and> list_all (fetched (example_library broken_site)) [link1]
   \<and> http_get (example_library broken_site) link2 = Inl (''ConnectionError'', ''unreachable'')
   \<and> snd (extract_all_district_links (index_page [cell1, cell2])) = Return ([link1] @ link2 # [])
   \<and> snd (all_district_links_v1 (index_page [cell1, cell2])) = Return ([link1] @ link2 # [])
   \<and> (\<exists>out. elections_scraper (example_library broken_site) empty_fs index_url ''out''
         = (empty_fs, (out @ [FetchFailed link2 ''ConnectionError'' ''unreachable''], Exit 1)))
   \<and> (\<exists>out. elections_scraper_v1 (example_library broken_site) empty_fs index_url ''out''
         = (empty_fs, (out @ [FetchFailed link2 ''ConnectionError'' ''unreachable''], Exit 1)))
   \<and> (\<exists>out r. district_step (example_library broken_site) link1 = (out, Return r))"
proof -
  let ?L = "example_library broken_site"
  have a: "http_get ?L ''x'' = Inl (''ConnectionError'', ''unreachable'')"
    by (simp add: example_library_def broken_site_def link1_def index_url_def base_url_def)
  have b: "http_get ?L index_url = Inr (index_page [cell1, cell2])"
    by (simp add: example_library_def broken_site_def)
  have c: "list_all (fetched ?L) [link1]"
    by (simp add: fetched_def example_library_def broken_site_def)
  have d: "http_get ?L link2 = Inl (''ConnectionError'', ''unreachable'')"
    by (simp add: example_library_def broken_site_def)
  have e: "snd (extract_all_district_links (index_page [cell1, cell2])) = Return ([link1] @ link2 # [])"
    by (simp add: extract_all_district_links_eq index_page_def cell_href_def cell1_def cell2_def
        List.map_filter_simps link1_def link2_def)
  have f: "snd (all_district_links_v1 (index_page [cell1, cell2])) = Return ([link1] @ link2 # [])"
    by (simp add: all_district_links_v1_def index_page_def link_try_v1_def cell1_def cell2_def
        link1_def link2_def)
  note t = C5_fetch_failure_is_fatal
  from t [of ?L "''x''" "''ConnectionError''" "''unreachable''" empty_fs "''out''"] a
  have 1: "elections_scraper ?L empty_fs ''x'' ''out''
       = (empty_fs, ([Downloading ''x'', FetchFailed ''x'' ''ConnectionError'' ''unreachable''], Exit 1))"
    by blast
  from t [of ?L index_url "''ConnectionError''" "''unreachable''" empty_fs "''out''"
      "index_page [cell1, cell2]" "[link1]" link2 "[]"] b c d e f
  have 2: "\<exists>out. elections_scraper ?L empty_fs index_url ''out''
         = (empty_fs, (out @ [FetchFailed link2 ''ConnectionError'' ''unreachable''], Exit 1))"
    and 3: "\<exists>out. elections_scraper_v1 ?L empty_fs index_url ''out''
         = (empty_fs, (out @ [FetchFailed link2 ''ConnectionError'' ''unreachable''], Exit 1))"
    by blast+
  from c have "fetched ?L link1" by simp
  with t [of ?L _ _ _ _ _ _ _ link1]
  have 4: "\<exists>out r. district_step ?L link1 = (out, Return r)"
    by blast
  from a b c d e f 1 2 3 4 show ?thesis by blast
qed

lemma headers_loop_counts:
  "snd (headers_loop warn lib soup headers
          (empty_district\<lparr>location := name, political_parties_votes := votes\<rparr>))
     = Return (parsed_record lib soup name votes)"
  by (simp add: headers_def empty_district_def parsed_record_def count_of_def split: option.splits)

lemma headers_loop_quiet:
  "fst (headers_loop warn lib soup headers
          (empty_district\<lparr>location := name, political_parties_votes := votes\<rparr>)) = []
   \<longleftrightarrow> count_of lib soup ''sa2'' \<noteq> None \<and> count_of lib soup ''sa3'' \<noteq> None
       \<and> count_of lib soup ''sa6'' \<noteq> None"
  by (simp add: headers_def empty_district_def count_of_def split: option.splits)

lemma get_votes_of_parties_v1_eq:
  "get_votes_of_parties_v1 lib soup =
     ((if list_all (parses lib) (vote_cells soup) then [] else [VotesError ValueError]),
      Return (zipped_votes lib soup))"
  using votes_count_None_iff [of lib "vote_cells soup"]
  by (auto simp add: get_votes_of_parties_v1_def zipped_votes_def return_def raise_def
      try_except_def print_def bind_io_def split: option.splits)

lemma get_votes_of_parties_eq:
  "get_votes_of_parties lib soup =
     (if votes_fail lib soup then ([], Raise ValueError)
      else ([], Return (refactored_votes lib soup)))"
  using votes_count_None_iff [of lib "vote_cells soup"]
  by (auto simp add: get_votes_of_parties_def votes_fail_def refactored_votes_def zipped_votes_def
      return_def raise_def split: option.splits)

lemma headers_loop_pair:
  "headers_loop warn lib soup headers
     (empty_district\<lparr>location := name, political_parties_votes := votes\<rparr>)
   = (fst (headers_loop warn lib soup headers
        (empty_district\<lparr>location := name, political_parties_votes := votes\<rparr>)),
      Return (parsed_record lib soup name votes))"
  by (simp add: prod_eq_iff headers_loop_counts)

text \<open>One pass of the refactored loop over a link that is fetched, case by case.\<close>

lemma district_step_eq:
  assumes "http_get lib link = Inr soup"
  shows "district_step lib link =
     (case get_code_from_url lib link of
        Inl e \<Rightarrow> ([DistrictException link e], Return None)
      | Inr None \<Rightarrow> ([CodeNotFound link], Return None)
      | Inr (Some c) \<Rightarrow>
          (case get_district_name soup district_selector of
             Inl e \<Rightarrow> ([DistrictException link e], Return None)
           | Inr None \<Rightarrow> ([], Return None)
           | Inr (Some name) \<Rightarrow>
               if name = [] then ([], Return None)
               else if votes_fail lib soup then ([DistrictException link ValueError], Return None)
               else (fst (headers_loop CellNotFound lib soup headers
                            (empty_district\<lparr>location := name,
                               political_parties_votes := refactored_votes lib soup\<rparr>)),
                     Return (Some (c, parsed_record lib soup name (refactored_votes lib soup))))))"
proof -
  have h: "bind_io (headers_loop CellNotFound lib soup headers
              (empty_district\<lparr>location := name, political_parties_votes := votes\<rparr>))
            (\<lambda>d. return (Some d))
         = (fst (headers_loop CellNotFound lib soup headers
              (empty_district\<lparr>location := name, political_parties_votes := votes\<rparr>)),
            Return (Some (parsed_record lib soup name votes)))" for name votes
    by (subst headers_loop_pair) (simp add: bind_io_Return)
  show ?thesis
    by (simp add: district_step_def district_try_def get_soup_success [OF assms]
        extract_district_data_def extract_headers_data_def get_votes_of_parties_eq h
        try_except_def bind_io_Return
        split: sum.splits option.splits)
       (simp_all add: return_def raise_def)
qed

text \<open>One pass of the first script's loop over a link that is fetched, case by case.\<close>

lemma global_data_step_eq:
  assumes "http_get lib link = Inr soup"
  shows "global_data_step lib link =
     (case get_district_name soup district_selector of
        Inr None \<Rightarrow> ([NameNotFound link], Return None)
      | Inl e \<Rightarrow> ([DistrictException [] e], Return None)
      | Inr (Some name) \<Rightarrow>
          (case get_code_from_url lib link of
             Inl e \<Rightarrow> ([DistrictException name e], Return None)
           | Inr None \<Rightarrow> ([CodeNotFound link], Return None)
           | Inr (Some c) \<Rightarrow>
               (fst (get_votes_of_parties_v1 lib soup)
                  @ fst (headers_loop CellNotFound_v1 lib soup headers
                           (empty_district\<lparr>location := name,
                              political_parties_votes := Some (zipped_votes lib soup)\<rparr>)),
                Return (Some (c, parsed_record lib soup name (Some (zipped_votes lib soup)))))))"
proof -
  have h: "bind_io (headers_loop CellNotFound_v1 lib soup headers
              (empty_district\<lparr>location := name, political_parties_votes := votes\<rparr>))
            (\<lambda>d. return (Some (c, d)))
         = (fst (headers_loop CellNotFound_v1 lib soup headers
              (empty_district\<lparr>location := name, political_parties_votes := votes\<rparr>)),
            Return (Some (c, parsed_record lib soup name votes)))" for name votes c
    by (subst headers_loop_pair) (simp add: bind_io_Return)
  show ?thesis
    by (simp add: global_data_step_def get_soup_success [OF assms] get_district_name_def
        get_votes_of_parties_v1_eq h try_except_def bind_io_Return
        split: sum.splits option.splits)
       (simp_all add: return_def raise_def item_def split: if_splits)
qed

lemma districts_loop_quiet:
  "districts_loop step links all_data = ([], Return rs) \<Longrightarrow>
   list_all (\<lambda>l. \<exists>r. step l = ([], Return r)) links
   \<and> rs = foldl (\<lambda>a l. insert_record (yield step l) a) all_data links"
proof (induction links arbitrary: all_data)
  case Nil
  then show ?case by (simp add: return_def)
next
  case (Cons l links)
  obtain out r where l: "step l = (out, r)" by (cases "step l")
  show ?case
  proof (cases r)
    case (Return x)
    with l Cons.prems have "(out @ fst (districts_loop step links (insert_record x all_data)),
        snd (districts_loop step links (insert_record x all_data))) = ([], Return rs)"
      by (simp add: bind_io_Return)
    then have "out = []"
      and "districts_loop step links (insert_record x all_data) = ([], Return rs)"
      by (simp_all add: prod_eq_iff)
    with Cons.IH [of "insert_record x all_data"] l Return show ?thesis
      by (simp add: yield_def)
  next
    case (Raise e)
    with l Cons.prems show ?thesis by simp
  next
    case (Exit n)
    with l Cons.prems show ?thesis by simp
  qed
qed

lemma foldl_insert_record:
  "list_all (\<lambda>l. yield step l \<noteq> None) links \<Longrightarrow>
   foldl (\<lambda>a l. insert_record (yield step l) a) acc links
     = foldl (\<lambda>d (k, v). AList.update k v d) acc (map (\<lambda>l. the (yield step l)) links)"
  by (induction links arbitrary: acc) (auto simp: insert_record_def)

lemma global_data_step_quiet:
  assumes "global_data_step lib link = ([], Return r)"
  shows "\<exists>c d. r = Some (c, d) \<and> get_code_from_url lib link = Inr (Some c)"
proof (cases "http_get lib link")
  case (Inl a)
  then show ?thesis
    using assms global_data_step_failure [of lib link "fst a" "snd a"] by simp
next
  case (Inr soup)
  from assms show ?thesis
    unfolding global_data_step_eq [OF Inr]
    by (auto split: sum.splits option.splits)
qed

lemma district_step_quiet:
  assumes "district_step lib link = ([], Return r)" and "named lib link"
  shows "\<exists>c d. r = Some (c, d) \<and> get_code_from_url lib link = Inr (Some c)"
proof (cases "http_get lib link")
  case (Inl a)
  then show ?thesis
    using assms district_step_failure [of lib link "fst a" "snd a"] by simp
next
  case (Inr soup)
  from assms(2) Inr obtain name where
    "get_district_name soup district_selector = Inr (Some name)" "name \<noteq> []"
    by (auto simp: named_def split: sum.splits option.splits)
  with assms(1) show ?thesis
    unfolding district_step_eq [OF Inr]
    by (auto split: sum.splits option.splits if_splits)
qed

lemma length_map_filter:
  "length (List.map_filter f xs) = length (filter (\<lambda>x. f x \<noteq> None) xs)"
  by (induction xs) (auto simp: List.map_filter_simps split: option.splits)

text \<open>In the reversed list of pairs a key finds the pair of its last occurrence.\<close>

lemma map_of_rev_last:
  assumes "i < length pairs"
    and "\<forall>j < length pairs. i < j \<longrightarrow> fst (pairs ! j) \<noteq> fst (pairs ! i)"
  shows "map_of (rev pairs) (fst (pairs ! i)) = Some (snd (pairs ! i))"
proof -
  let ?later = "drop (Suc i) pairs"
  have split: "pairs = take i pairs @ pairs ! i # ?later"
    using assms(1) by (simp add: id_take_nth_drop)
  have "fst (pairs ! i) \<notin> fst ` set ?later"
  proof
    assume "fst (pairs ! i) \<in> fst ` set ?later"
    then obtain p where p: "p \<in> set ?later" "fst p = fst (pairs ! i)" by auto
    then obtain k where k: "k < length ?later" "?later ! k = p"
      by (auto simp: in_set_conv_nth)
    then have "Suc i + k < length pairs" "pairs ! (Suc i + k) = p"
      by simp_all
    with assms(2) p(2) show False by auto
  qed
  then have none: "map_of (rev ?later) (fst (pairs ! i)) = None"
    by (simp add: map_of_eq_None_iff)
  have "rev pairs = rev ?later @ pairs ! i # rev (take i pairs)"
    by (subst split) simp
  then show ?thesis
    using none by (simp add: map_add_def split: option.splits prod.splits)
qed

lemma quiet_loop_is_dict:
  assumes loop: "districts_loop step links [] = ([], Return rs)"
    and quiet: "\<And>l r. l \<in> set links \<Longrightarrow> step l = ([], Return r) \<Longrightarrow>
                  \<exists>c d. r = Some (c, d) \<and> code l = Inr (Some c)"
  shows "\<exists>pairs. map (\<lambda>p. ([], Return (Some p))) pairs = map step links
     \<and> map (\<lambda>p. Inr (Some (fst p))) pairs = map code links
     \<and> rs = dict pairs
     \<and> length rs = card (set (map fst pairs))
     \<and> (distinct (map fst pairs) \<longrightarrow> length rs = length links)
     \<and> map_of rs = map_of (rev pairs)
     \<and> (\<forall>i < length pairs.
          (\<forall>j < length pairs. i < j \<longrightarrow> fst (pairs ! j) \<noteq> fst (pairs ! i)) \<longrightarrow>
          map_of rs (fst (pairs ! i)) = Some (snd (pairs ! i)))"
proof -
  let ?pairs = "map (\<lambda>l. the (yield step l)) links"
  from districts_loop_quiet [OF loop] have
    q: "list_all (\<lambda>l. \<exists>r. step l = ([], Return r)) links" and
    rs: "rs = foldl (\<lambda>a l. insert_record (yield step l) a) [] links"
    by simp_all
  have y: "\<exists>c d. step l = ([], Return (Some (c, d))) \<and> yield step l = Some (c, d)
      \<and> code l = Inr (Some c)" if "l \<in> set links" for l
  proof -
    from q that obtain r where r: "step l = ([], Return r)"
      by (auto simp: list_all_iff)
    from quiet [OF that r] r show ?thesis by (auto simp: yield_def)
  qed
  then have "list_all (\<lambda>l. yield step l \<noteq> None) links"
    unfolding list_all_iff by blast
  from foldl_insert_record [OF this] rs have d: "rs = dict ?pairs"
    by (simp add: dict_def)
  have "([], Return (Some (the (yield step l)))) = step l" if "l \<in> set links" for l
    using y [OF that] by auto
  then have s: "map (\<lambda>p. ([], Return (Some p))) ?pairs = map step links"
    by simp
  have "Inr (Some (fst (the (yield step l)))) = code l" if "l \<in> set links" for l
    using y [OF that] by auto
  then have c: "map (\<lambda>p. Inr (Some (fst p))) ?pairs = map code links"
    by simp
  have l: "length rs = card (set (map fst ?pairs))"
    by (simp add: d length_dict image_image)
  have n: "distinct (map fst ?pairs) \<longrightarrow> length rs = length links"
    using l by (auto simp: distinct_card simp del: set_map)
  have m: "map_of rs = map_of (rev ?pairs)"
    by (simp only: d map_of_dict)
  have w: "\<forall>i < length ?pairs.
      (\<forall>j < length ?pairs. i < j \<longrightarrow> fst (?pairs ! j) \<noteq> fst (?pairs ! i)) \<longrightarrow>
      map_of rs (fst (?pairs ! i)) = Some (snd (?pairs ! i))"
    unfolding m using map_of_rev_last [of _ ?pairs] by blast
  from s c d l n m w show ?thesis by blast
qed

lemma all_district_links_v1_good:
  "list_all (\<lambda>c. cell_href c \<noteq> None) (link_cells soup) \<Longrightarrow>
   all_district_links_v1 soup = ([], Return (page_links soup))"
  by (simp add: all_district_links_v1_def page_links_def links_loop_v1_good)

lemma all_district_links_v1_bad:
  "\<not> list_all (\<lambda>c. cell_href c \<noteq> None) (link_cells soup) \<Longrightarrow>
   \<exists>e. all_district_links_v1 soup = ([], Raise e) \<and> (e = AttributeError \<or> e = ValueError)"
  by (simp add: all_district_links_v1_def links_loop_v1_bad)

lemma extract_all_district_links_links:
  "extract_all_district_links soup =
     (replicate (length (filter (\<lambda>c. cell_href c = None) (link_cells soup))) LinkWarning,
      Return (page_links soup))"
  by (simp add: extract_all_district_links_eq page_links_def)

lemma length_page_links:
  "list_all (\<lambda>c. cell_href c \<noteq> None) (link_cells soup) \<Longrightarrow>
   length (page_links soup) = length (link_cells soup)"
  by (simp add: page_links_def length_map_filter list_all_iff)

text \<open>
  C8, amended: when the run over an index page prints no diagnostic (and, for the
  refactored script, every district page has a location name), every cell of the index
  page is valid, the pass over each of the N links prints nothing and returns the pair of
  the link's code and the record read from its page, and the result set is the dict of
  exactly these pairs in link order. Its entries number the distinct codes among the N
  links (N when the codes are pairwise distinct), and a code maps to the record that the
  pass over the last link with this code returned: last write wins.
\<close>

theorem C8_result_set_entries:
  "(global_data_v1 lib soup = ([], Return rs) \<longrightarrow>
      all_district_links_v1 soup = ([], Return (page_links soup))
      \<and> length (page_links soup) = length (link_cells soup)
      \<and> (\<exists>pairs. map (\<lambda>p. ([], Return (Some p))) pairs = map (global_data_step lib) (page_links soup)
            \<and> map (\<lambda>p. Inr (Some (fst p))) pairs = map (get_code_from_url lib) (page_links soup)
            \<and> rs = dict pairs
            \<and> length rs = card (set (map fst pairs))
            \<and> (distinct (map fst pairs) \<longrightarrow> length rs = length (link_cells soup))
            \<and> map_of rs = map_of (rev pairs)
            \<and> (\<forall>i < length pairs.
                 (\<forall>j < length pairs. i < j \<longrightarrow> fst (pairs ! j) \<noteq> fst (pairs ! i)) \<longrightarrow>
                 map_of rs (fst (pairs ! i)) = Some (snd (pairs ! i)))))
   \<and> (extract_all_districts_data lib soup = ([], Return rs)
        \<and> list_all (named lib) (page_links soup) \<longrightarrow>
      extract_all_district_links soup = ([], Return (page_links soup))
      \<and> length (page_links soup) = length (link_cells soup)
      \<and> (\<exists>pairs. map (\<lambda>p. ([], Return (Some p))) pairs = map (district_step lib) (page_links soup)
            \<and> map (\<lambda>p. Inr (Some (fst p))) pairs = map (get_code_from_url lib) (page_links soup)
            \<and> rs = dict pairs
            \<and> length rs = card (set (map fst pairs))
            \<and> (distinct (map fst pairs) \<longrightarrow> length rs = length (link_cells soup))
            \<and> map_of rs = map_of (rev pairs)
            \<and> (\<forall>i < length pairs.
                 (\<forall>j < length pairs. i < j \<longrightarrow> fst (pairs ! j) \<noteq> fst (pairs ! i)) \<longrightarrow>
                 map_of rs (fst (pairs ! i)) = Some (snd (pairs ! i)))))"
proof (intro conjI impI)
  assume a: "global_data_v1 lib soup = ([], Return rs)"
  have valid: "list_all (\<lambda>c. cell_href c \<noteq> None) (link_cells soup)"
  proof (rule ccontr)
    assume "\<not> list_all (\<lambda>c. cell_href c \<noteq> None) (link_cells soup)"
    from all_district_links_v1_bad [OF this] a show False
      by (auto simp: global_data_v1_def)
  qed
  then show links: "all_district_links_v1 soup = ([], Return (page_links soup))"
    by (rule all_district_links_v1_good)
  from valid show len: "length (page_links soup) = length (link_cells soup)"
    by (rule length_page_links)
  from a links have "districts_loop (global_data_step lib) (page_links soup) [] = ([], Return rs)"
    by (simp add: global_data_v1_def bind_io_Return)
  from quiet_loop_is_dict [OF this, of "get_code_from_url lib"] global_data_step_quiet [of lib]
  show "\<exists>pairs. map (\<lambda>p. ([], Return (Some p))) pairs = map (global_data_step lib) (page_links soup)
            \<and> map (\<lambda>p. Inr (Some (fst p))) pairs = map (get_code_from_url lib) (page_links soup)
            \<and> rs = dict pairs
            \<and> length rs = card (set (map fst pairs))
            \<and> (distinct (map fst pairs) \<longrightarrow> length rs = length (link_cells soup))
            \<and> map_of rs = map_of (rev pairs)
            \<and> (\<forall>i < length pairs.
                 (\<forall>j < length pairs. i < j \<longrightarrow> fst (pairs ! j) \<noteq> fst (pairs ! i)) \<longrightarrow>
                 map_of rs (fst (pairs ! i)) = Some (snd (pairs ! i)))"
    unfolding len by blast
next
  assume a: "extract_all_districts_data lib soup = ([], Return rs)
    \<and> list_all (named lib) (page_links soup)"
  let ?w = "replicate (length (filter (\<lambda>c. cell_href c = None) (link_cells soup))) LinkWarning"
  from a have b: "(?w @ fst (districts_loop (district_step lib) (page_links soup) []),
      snd (districts_loop (district_step lib) (page_links soup) [])) = ([], Return rs)"
    by (simp add: extract_all_districts_data_def extract_all_district_links_links bind_io_Return)
  then have w: "?w = []" and
    loop: "districts_loop (district_step lib) (page_links soup) [] = ([], Return rs)"
    by (simp_all add: prod_eq_iff)
  from w have valid: "list_all (\<lambda>c. cell_href c \<noteq> None) (link_cells soup)"
    by (simp add: list_all_iff filter_empty_conv)
  from w show "extract_all_district_links soup = ([], Return (page_links soup))"
    by (simp add: extract_all_district_links_links)
  from valid show len: "length (page_links soup) = length (link_cells soup)"
    by (rule length_page_links)
  have q: "\<exists>c d. r = Some (c, d) \<and> get_code_from_url lib l = Inr (Some c)"
    if "l \<in> set (page_links soup)" "district_step lib l = ([], Return r)" for l r
    using that a district_step_quiet [of lib l r] by (simp add: list_all_iff)
  from quiet_loop_is_dict [OF loop, of "get_code_from_url lib"] q
  show "\<exists>pairs. map (\<lambda>p. ([], Return (Some p))) pairs = map (district_step lib) (page_links soup)
            \<and> map (\<lambda>p. Inr (Some (fst p))) pairs = map (get_code_from_url lib) (page_links soup)
            \<and> rs = dict pairs
            \<and> length rs = card (set (map fst pairs))
            \<and> (distinct (map fst pairs) \<longrightarrow> length rs = length (link_cells soup))
            \<and> map_of rs = map_of (rev pairs)
            \<and> (\<forall>i < length pairs.
                 (\<forall>j < length pairs. i < j \<longrightarrow> fst (pairs ! j) \<noteq> fst (pairs ! i)) \<longrightarrow>
                 map_of rs (fst (pairs ! i)) = Some (snd (pairs ! i)))"
    unfolding len by blast
qed

lemma example_codes:
  "get_code_from_url (example_library site) link1 = Inr (Some ''1'')"
  "get_code_from_url (example_library site) link2 = Inr (Some ''2'')"
  "get_code_from_url (example_library site) link1b = Inr (Some ''1'')"
  by (simp_all add: get_code_from_url_def example_library_def example_qs_def item_def)

lemma good_page_parsed:
  "get_district_name good_page district_selector = Inr (Some '' Praha'')"
  "\<not> votes_fail (example_library site) good_page"
  "refactored_votes (example_library site) good_page = Some [(''A'', 10), (''B'', 3)]"
  "zipped_votes (example_library site) good_page = [(''A'', 10), (''B'', 3)]"
  "list_all (parses (example_library site)) (vote_cells good_page)"
  "headers_loop warn (example_library site) good_page headers
     (empty_district\<lparr>location := '' Praha'',
        political_parties_votes := Some [(''A'', 10), (''B'', 3)]\<rparr>) = ([], Return good_record)"
  by (simp_all add: good_page_def district_page_def get_district_name_def strip_def isspace_def
      item_def votes_fail_def parses_def refactored_votes_def zipped_votes_def dict_def
      example_library_def example_int_def clean_data_def headers_def empty_district_def
      good_record_def return_def)

lemma good_pass:
  assumes "site link = Some good_page" "get_code_from_url (example_library site) link = Inr (Some c)"
  shows "district_step (example_library site) link = ([], Return (Some (c, good_record)))"
    and "global_data_step (example_library site) link = ([], Return (Some (c, good_record)))"
proof -
  have f: "http_get (example_library site) link = Inr good_page"
    using assms(1) by (simp add: example_library_def)
  have p: "parsed_record (example_library site) good_page '' Praha'' (Some [(''A'', 10), (''B'', 3)])
      = good_record"
    using headers_loop_counts [where warn = CellNotFound and lib = "example_library site"
        and soup = good_page and name = "'' Praha''" and votes = "Some [(''A'', 10), (''B'', 3)]"]
    by (simp add: good_page_parsed)
  show "district_step (example_library site) link = ([], Return (Some (c, good_record)))"
    by (simp add: district_step_eq [OF f] assms(2) good_page_parsed p)
  show "global_data_step (example_library site) link = ([], Return (Some (c, good_record)))"
    by (simp add: global_data_step_eq [OF f] assms(2) good_page_parsed p
        get_votes_of_parties_v1_eq)
qed

lemma other_page_parsed:
  "get_district_name other_page district_selector = Inr (Some '' Brno'')"
  "\<not> votes_fail (example_library site) other_page"
  "refactored_votes (example_library site) other_page = Some [(''A'', 5)]"
  "zipped_votes (example_library site) other_page = [(''A'', 5)]"
  "list_all (parses (example_library site)) (vote_cells other_page)"
  "headers_loop warn (example_library site) other_page headers
     (empty_district\<lparr>location := '' Brno'',
        political_parties_votes := Some [(''A'', 5)]\<rparr>) = ([], Return other_record)"
  by (simp_all add: other_page_def district_page_def get_district_name_def strip_def isspace_def
      item_def votes_fail_def parses_def refactored_votes_def zipped_votes_def dict_def
      example_library_def example_int_def clean_data_def headers_def empty_district_def
      other_record_def return_def)

lemma other_pass:
  assumes "site link = Some other_page" "get_code_from_url (example_library site) link = Inr (Some c)"
  shows "district_step (example_library site) link = ([], Return (Some (c, other_record)))"
    and "global_data_step (example_library site) link = ([], Return (Some (c, other_record)))"
proof -
  have f: "http_get (example_library site) link = Inr other_page"
    using assms(1) by (simp add: example_library_def)
  have p: "parsed_record (example_library site) other_page '' Brno'' (Some [(''A'', 5)])
      = other_record"
    using headers_loop_counts [where warn = CellNotFound and lib = "example_library site"
        and soup = other_page and name = "'' Brno''" and votes = "Some [(''A'', 5)]"]
    by (simp add: other_page_parsed)
  show "district_step (example_library site) link = ([], Return (Some (c, other_record)))"
    by (simp add: district_step_eq [OF f] assms(2) other_page_parsed p)
  show "global_data_step (example_library site) link = ([], Return (Some (c, other_record)))"
    by (simp add: global_data_step_eq [OF f] assms(2) other_page_parsed p
        get_votes_of_parties_v1_eq)
qed

lemma example_cells:
  "cell_href cell1 = Some ''ps311?xobec=1''" "cell_href cell2 = Some ''ps311?xobec=2''"
  "page_links (index_page [cell1, cell1]) = [link1, link1]"
  "page_links (index_page [cell1, cell2]) = [link1, link2]"
  "link_cells (index_page cells) = cells"
  "cell_href cell1b = Some ''ps311?xobec=1&xvyber=2101''"
  "page_links (index_page [cell1, cell1b]) = [link1, link1b]"
  by (simp_all add: cell_href_def cell1_def cell2_def cell1b_def page_links_def index_page_def
      List.map_filter_simps link1_def link2_def link1b_def)

text \<open>
  C8 as stated fails: an index page with two valid cells that link the same district is
  processed without any diagnostic and the result set has one entry, in both scripts.
\<close>

theorem C8_repeated_code_counterexample:
  "length (link_cells (index_page [cell1, cell1])) = 2
   \<and> cell_href cell1 \<noteq> None
   \<and> extract_all_districts_data (example_library twin_site) (index_page [cell1, cell1])
       = ([], Return [(''1'', good_record)])
   \<and> global_data_v1 (example_library twin_site) (index_page [cell1, cell1])
       = ([], Return [(''1'', good_record)])"
proof -
  have s: "twin_site link1 = Some good_page" by (simp add: twin_site_def)
  note p = good_pass [of twin_site link1, OF s example_codes(1)]
  have "extract_all_districts_data (example_library twin_site) (index_page [cell1, cell1])
       = ([], Return [(''1'', good_record)])"
    by (simp add: extract_all_districts_data_def extract_all_district_links_links example_cells
        p bind_io_Return insert_record_def return_def)
  moreover have "global_data_v1 (example_library twin_site) (index_page [cell1, cell1])
       = ([], Return [(''1'', good_record)])"
    by (simp add: global_data_v1_def all_district_links_v1_good example_cells
        p bind_io_Return insert_record_def return_def)
  ultimately show ?thesis
    by (simp add: example_cells)
qed

theorem C8_result_set_entries_witness:
  "global_data_v1 (example_library pair_site) (index_page [cell1, cell2])
     = ([], Return [(''1'', good_record), (''2'', good_record)])
   \<and> extract_all_districts_data (example_library pair_site) (index_page [cell1, cell2])
     = ([], Return [(''1'', good_record), (''2'', good_record)])
   \<and> list_all (named (example_library pair_site)) (page_links (index_page [cell1, cell2]))
   \<and> length (page_links (index_page [cell1, cell2])) = length (link_cells (index_page [cell1, cell2]))
   \<and> (\<exists>pairs. map (\<lambda>p. Inr (Some (fst p))) pairs
          = map (get_code_from_url (example_library pair_site)) (page_links (index_page [cell1, cell2]))
        \<and> [(''1'', good_record), (''2'', good_record)] = dict pairs
        \<and> distinct (map fst pairs)
        \<and> length [(''1'', good_record), (''2'', good_record)]
            = length (link_cells (index_page [cell1, cell2])))
   \<and> global_data_v1 (example_library repeat_site) (index_page [cell1, cell1b])
     = ([], Return [(''1'', other_record)])
   \<and> extract_all_districts_data (example_library repeat_site) (index_page [cell1, cell1b])
     = ([], Return [(''1'', other_record)])
   \<and> list_all (named (example_library repeat_site)) (page_links (index_page [cell1, cell1b]))
   \<and> good_record \<noteq> other_record
   \<and> (\<exists>pairs. map (\<lambda>p. ([], Return (Some p))) pairs
          = map (global_data_step (example_library repeat_site)) (page_links (index_page [cell1, cell1b]))
        \<and> pairs = [(''1'', good_record), (''1'', other_record)]
        \<and> [(''1'', other_record)] = dict pairs
        \<and> map_of [(''1'', other_record)] (fst (pairs ! 1)) = Some (snd (pairs ! 1)))
   \<and> (\<exists>pairs. map (\<lambda>p. ([], Return (Some p))) pairs
          = map (district_step (example_library repeat_site)) (page_links (index_page [cell1, cell1b]))
        \<and> pairs = [(''1'', good_record), (''1'', other_record)]
        \<and> [(''1'', other_record)] = dict pairs
        \<and> map_of [(''1'', other_record)] (fst (pairs ! 1)) = Some (snd (pairs ! 1)))"
proof -
  let ?L = "example_library pair_site"
  let ?rs = "[(''1'', good_record), (''2'', good_record)]"
  have s: "pair_site link1 = Some good_page" "pair_site link2 = Some good_page"
    by (simp_all add: pair_site_def)
  note p1 = good_pass [of pair_site link1, OF s(1) example_codes(1)]
    and p2 = good_pass [of pair_site link2, OF s(2) example_codes(2)]
  have a: "global_data_v1 ?L (index_page [cell1, cell2]) = ([], Return ?rs)"
    by (simp add: global_data_v1_def all_district_links_v1_good example_cells
        p1 p2 bind_io_Return insert_record_def return_def)
  have b: "extract_all_districts_data ?L (index_page [cell1, cell2]) = ([], Return ?rs)"
    by (simp add: extract_all_districts_data_def extract_all_district_links_links example_cells
        p1 p2 bind_io_Return insert_record_def return_def)
  have n: "list_all (named ?L) (page_links (index_page [cell1, cell2]))"
    by (simp add: example_cells named_def example_library_def pair_site_def good_page_parsed)
  from C8_result_set_entries [of ?L "index_page [cell1, cell2]" ?rs] a b n
  obtain pairs where
    l: "length (page_links (index_page [cell1, cell2])) = length (link_cells (index_page [cell1, cell2]))" and
    c: "map (\<lambda>p. Inr (Some (fst p))) pairs
          = map (get_code_from_url ?L) (page_links (index_page [cell1, cell2]))" and
    d: "?rs = dict pairs" and
    e: "distinct (map fst pairs) \<longrightarrow> length ?rs = length (link_cells (index_page [cell1, cell2]))"
    by blast
  from c have "map fst pairs = [''1'', ''2'']"
    by (auto simp: example_cells example_codes map_eq_Cons_conv)
  then have "distinct (map fst pairs)" by simp
  with a b n l c d e have first: "global_data_v1 ?L (index_page [cell1, cell2]) = ([], Return ?rs)
   \<and> extract_all_districts_data ?L (index_page [cell1, cell2]) = ([], Return ?rs)
   \<and> list_all (named ?L) (page_links (index_page [cell1, cell2]))
   \<and> length (page_links (index_page [cell1, cell2])) = length (link_cells (index_page [cell1, cell2]))
   \<and> (\<exists>pairs. map (\<lambda>p. Inr (Some (fst p))) pairs
          = map (get_code_from_url ?L) (page_links (index_page [cell1, cell2]))
        \<and> ?rs = dict pairs
        \<and> distinct (map fst pairs)
        \<and> length ?rs = length (link_cells (index_page [cell1, cell2])))"
    by blast
  let ?R = "example_library repeat_site"
  let ?I = "index_page [cell1, cell1b]"
  let ?rr = "[(''1'', other_record)]"
  let ?pp = "[(''1'', good_record), (''1'', other_record)]"
  have r: "repeat_site link1 = Some good_page" "repeat_site link1b = Some other_page"
    by (simp_all add: repeat_site_def)
  note q1 = good_pass [of repeat_site link1, OF r(1) example_codes(1)]
    and q2 = other_pass [of repeat_site link1b, OF r(2) example_codes(3)]
  have a2: "global_data_v1 ?R ?I = ([], Return ?rr)"
    by (simp add: global_data_v1_def all_district_links_v1_good example_cells
        q1 q2 bind_io_Return insert_record_def return_def)
  have b2: "extract_all_districts_data ?R ?I = ([], Return ?rr)"
    by (simp add: extract_all_districts_data_def extract_all_district_links_links example_cells
        q1 q2 bind_io_Return insert_record_def return_def)
  have n2: "list_all (named ?R) (page_links ?I)"
    by (simp add: example_cells named_def example_library_def repeat_site_def good_page_parsed
        other_page_parsed)
  have ne: "good_record \<noteq> other_record"
    by (simp add: good_record_def other_record_def)
  have last: "map_of ?rr (fst (ps ! 1)) = Some (snd (ps ! 1))"
    if m: "map (\<lambda>p. ([], Return (Some p))) ps = [([]::message list, Return (Some (''1'', good_record))),
             ([], Return (Some (''1'', other_record)))]"
      and w: "\<forall>i < length ps. (\<forall>j < length ps. i < j \<longrightarrow> fst (ps ! j) \<noteq> fst (ps ! i)) \<longrightarrow>
                 map_of ?rr (fst (ps ! i)) = Some (snd (ps ! i))" for ps
  proof -
    from m have "length ps = 2" by (auto simp: map_eq_Cons_conv)
    with w [rule_format, of 1] show ?thesis by simp
  qed
  have shape: "ps = ?pp"
    if "map (\<lambda>p. ([], Return (Some p))) ps = [([]::message list, Return (Some (''1'', good_record))),
             ([], Return (Some (''1'', other_record)))]" for ps
    using that by (auto simp: map_eq_Cons_conv)
  from C8_result_set_entries [of ?R ?I ?rr] a2
  obtain pairs1 where
    m1: "map (\<lambda>p. ([], Return (Some p))) pairs1 = map (global_data_step ?R) (page_links ?I)" and
    d1: "?rr = dict pairs1" and
    w1: "\<forall>i < length pairs1. (\<forall>j < length pairs1. i < j \<longrightarrow> fst (pairs1 ! j) \<noteq> fst (pairs1 ! i)) \<longrightarrow>
           map_of ?rr (fst (pairs1 ! i)) = Some (snd (pairs1 ! i))"
    by blast
  from m1 have m1': "map (\<lambda>p. ([], Return (Some p))) pairs1
      = [([]::message list, Return (Some (''1'', good_record))), ([], Return (Some (''1'', other_record)))]"
    by (simp add: example_cells q1 q2)
  have v1: "\<exists>pairs. map (\<lambda>p. ([], Return (Some p))) pairs = map (global_data_step ?R) (page_links ?I)
        \<and> pairs = ?pp \<and> ?rr = dict pairs
        \<and> map_of ?rr (fst (pairs ! 1)) = Some (snd (pairs ! 1))"
    using m1 d1 shape [OF m1'] last [OF m1' w1] by blast
  from C8_result_set_entries [of ?R ?I ?rr] b2 n2
  obtain pairs2 where
    m2: "map (\<lambda>p. ([], Return (Some p))) pairs2 = map (district_step ?R) (page_links ?I)" and
    d2: "?rr = dict pairs2" and
    w2: "\<forall>i < length pairs2. (\<forall>j < length pairs2. i < j \<longrightarrow> fst (pairs2 ! j) \<noteq> fst (pairs2 ! i)) \<longrightarrow>
           map_of ?rr (fst (pairs2 ! i)) = Some (snd (pairs2 ! i))"
    by blast
  from m2 have m2': "map (\<lambda>p. ([], Return (Some p))) pairs2
      = [([]::message list, Return (Some (''1'', good_record))), ([], Return (Some (''1'', other_record)))]"
    by (simp add: example_cells q1 q2)
  have v2: "\<exists>pairs. map (\<lambda>p. ([], Return (Some p))) pairs = map (district_step ?R) (page_links ?I)
        \<and> pairs = ?pp \<and> ?rr = dict pairs
        \<and> map_of ?rr (fst (pairs ! 1)) = Some (snd (pairs ! 1))"
    using m2 d2 shape [OF m2'] last [OF m2' w2] by blast
  from first a2 b2 n2 ne v1 v2 show ?thesis by blast
qed

lemma count_of_None_iff:
  "count_of lib soup header = None \<longleftrightarrow>
     header_cell soup header = None
     \<or> (\<exists>text. header_cell soup header = Some text \<and> py_int lib (clean_data text) = None)"
  by (simp add: count_of_def split: option.splits)

lemma get_district_name_Some:
  "get_district_name soup district = Inr (Some name) \<Longrightarrow> \<exists>text. select_one soup district = Some text"
  by (auto simp: get_district_name_def split: option.splits)

text \<open>
  C1, amended: a pass of the loop inserts a record only if the page is fetched, the code
  is found and the heading is found. Conversely, with the code found and a location name
  read from the heading, the first script always inserts the record; the refactored
  script inserts it when the name is not empty and reading the party votes raises
  nothing. The inserted record is then in the result set under its code; each of its
  three counts is read from its own cell and is null exactly when that cell is missing
  or not parsed, whatever the other fields.
\<close>

theorem C1_record_inserted:
  "(district_step lib link = (out, Return (Some (c, d))) \<longrightarrow>
      (\<exists>soup text. http_get lib link = Inr soup \<and> select_one soup district_selector = Some text)
      \<and> get_code_from_url lib link = Inr (Some c))
   \<and> (global_data_step lib link = (out, Return (Some (c, d))) \<longrightarrow>
      (\<exists>soup text. http_get lib link = Inr soup \<and> select_one soup district_selector = Some text)
      \<and> get_code_from_url lib link = Inr (Some c))
   \<and> (http_get lib link = Inr soup \<and> get_code_from_url lib link = Inr (Some c)
        \<and> get_district_name soup district_selector = Inr (Some name)
        \<and> name \<noteq> [] \<and> \<not> votes_fail lib soup \<longrightarrow>
      snd (district_step lib link)
        = Return (Some (c, parsed_record lib soup name (refactored_votes lib soup)))
      \<and> map_of (insert_record (yield (district_step lib) link) all_data) c
          = Some (parsed_record lib soup name (refactored_votes lib soup)))
   \<and> (http_get lib link = Inr soup \<and> get_code_from_url lib link = Inr (Some c)
        \<and> get_district_name soup district_selector = Inr (Some name) \<longrightarrow>
      snd (global_data_step lib link)
        = Return (Some (c, parsed_record lib soup name (Some (zipped_votes lib soup))))
      \<and> map_of (insert_record (yield (global_data_step lib) link) all_data) c
          = Some (parsed_record lib soup name (Some (zipped_votes lib soup))))
   \<and> location (parsed_record lib soup name votes) = name
   \<and> political_parties_votes (parsed_record lib soup name votes) = votes
   \<and> count_registered (parsed_record lib soup name votes) = count_of lib soup ''sa2''
   \<and> count_envelopes (parsed_record lib soup name votes) = count_of lib soup ''sa3''
   \<and> count_valid (parsed_record lib soup name votes) = count_of lib soup ''sa6''
   \<and> (count_of lib soup header = None \<longleftrightarrow>
        header_cell soup header = None
        \<or> (\<exists>text. header_cell soup header = Some text \<and> py_int lib (clean_data text) = None))"
proof (intro conjI impI)
  assume a: "district_step lib link = (out, Return (Some (c, d)))"
  show "\<exists>soup text. http_get lib link = Inr soup \<and> select_one soup district_selector = Some text"
  proof (cases "http_get lib link")
    case (Inl e)
    with a district_step_failure [of lib link "fst e" "snd e"] show ?thesis by simp
  next
    case (Inr soup)
    from a have "\<exists>name. get_district_name soup district_selector = Inr (Some name)"
      unfolding district_step_eq [OF Inr]
      by (auto split: sum.splits option.splits if_splits)
    with Inr show ?thesis by (auto dest: get_district_name_Some)
  qed
  show "get_code_from_url lib link = Inr (Some c)"
  proof (cases "http_get lib link")
    case (Inl e)
    with a district_step_failure [of lib link "fst e" "snd e"] show ?thesis by simp
  next
    case (Inr soup)
    from a show ?thesis
      unfolding district_step_eq [OF Inr]
      by (auto split: sum.splits option.splits if_splits)
  qed
next
  assume a: "global_data_step lib link = (out, Return (Some (c, d)))"
  show "\<exists>soup text. http_get lib link = Inr soup \<and> select_one soup district_selector = Some text"
  proof (cases "http_get lib link")
    case (Inl e)
    with a global_data_step_failure [of lib link "fst e" "snd e"] show ?thesis by simp
  next
    case (Inr soup)
    from a have "\<exists>name. get_district_name soup district_selector = Inr (Some name)"
      unfolding global_data_step_eq [OF Inr]
      by (auto split: sum.splits option.splits if_splits)
    with Inr show ?thesis by (auto dest: get_district_name_Some)
  qed
  show "get_code_from_url lib link = Inr (Some c)"
  proof (cases "http_get lib link")
    case (Inl e)
    with a global_data_step_failure [of lib link "fst e" "snd e"] show ?thesis by simp
  next
    case (Inr soup)
    from a show ?thesis
      unfolding global_data_step_eq [OF Inr]
      by (auto split: sum.splits option.splits if_splits)
  qed
next
  assume a: "http_get lib link = Inr soup \<and> get_code_from_url lib link = Inr (Some c)
        \<and> get_district_name soup district_selector = Inr (Some name)
        \<and> name \<noteq> [] \<and> \<not> votes_fail lib soup"
  then have f: "http_get lib link = Inr soup" by simp
  from a show s: "snd (district_step lib link)
        = Return (Some (c, parsed_record lib soup name (refactored_votes lib soup)))"
    by (simp add: district_step_eq [OF f])
  then show "map_of (insert_record (yield (district_step lib) link) all_data) c
          = Some (parsed_record lib soup name (refactored_votes lib soup))"
    by (simp add: yield_def insert_record_def update_conv')
next
  assume a: "http_get lib link = Inr soup \<and> get_code_from_url lib link = Inr (Some c)
        \<and> get_district_name soup district_selector = Inr (Some name)"
  then have f: "http_get lib link = Inr soup" by simp
  from a show s: "snd (global_data_step lib link)
        = Return (Some (c, parsed_record lib soup name (Some (zipped_votes lib soup))))"
    by (simp add: global_data_step_eq [OF f])
  then show "map_of (insert_record (yield (global_data_step lib) link) all_data) c
          = Some (parsed_record lib soup name (Some (zipped_votes lib soup)))"
    by (simp add: yield_def insert_record_def update_conv')
qed (simp_all add: parsed_record_def count_of_None_iff)

text \<open>
  C1 as stated fails for the refactored script: for both districts the code and the
  heading are found, and neither record is inserted. The first is dropped by the
  handler of the loop when \<open>int\<close> rejects a vote cell, the second without any line
  printed because its name is empty.
\<close>

theorem C1_found_but_not_inserted_counterexample:
  "get_code_from_url (example_library lossy_site) link1 = Inr (Some ''1'')
   \<and> http_get (example_library lossy_site) link1 = Inr votes_page
   \<and> select_one votes_page district_selector = Some ''Obec: X''
   \<and> district_step (example_library lossy_site) link1
       = ([DistrictException link1 ValueError], Return None)
   \<and> get_code_from_url (example_library lossy_site) link2 = Inr (Some ''2'')
   \<and> http_get (example_library lossy_site) link2 = Inr nameless_page
   \<and> select_one nameless_page district_selector = Some ''Obec:''
   \<and> district_step (example_library lossy_site) link2 = ([], Return None)
   \<and> extract_all_districts_data (example_library lossy_site) (index_page [cell1, cell2])
       = ([DistrictException link1 ValueError], Return [])"
proof -
  let ?L = "example_library lossy_site"
  have f1: "http_get ?L link1 = Inr votes_page" and f2: "http_get ?L link2 = Inr nameless_page"
    by (simp_all add: example_library_def lossy_site_def)
  have h: "select_one votes_page district_selector = Some ''Obec: X''"
    "select_one nameless_page district_selector = Some ''Obec:''"
    by (simp_all add: votes_page_def nameless_page_def district_page_def)
  have n: "get_district_name votes_page district_selector = Inr (Some '' X'')"
    "get_district_name nameless_page district_selector = Inr (Some [])"
    by (simp_all add: get_district_name_def h strip_def isspace_def item_def)
  have v: "votes_fail ?L votes_page"
    by (simp add: votes_fail_def votes_page_def district_page_def parses_def example_library_def
        example_int_def strip_def isspace_def clean_data_def)
  have s1: "district_step ?L link1 = ([DistrictException link1 ValueError], Return None)"
    by (simp add: district_step_eq [OF f1] example_codes n v)
  have s2: "district_step ?L link2 = ([], Return None)"
    by (simp add: district_step_eq [OF f2] example_codes n)
  have "extract_all_districts_data ?L (index_page [cell1, cell2])
       = ([DistrictException link1 ValueError], Return [])"
    by (simp add: extract_all_districts_data_def extract_all_district_links_links example_cells
        s1 s2 bind_io_Return insert_record_def return_def)
  with f1 f2 h s1 s2 show ?thesis by (simp add: example_codes)
qed

theorem C1_record_inserted_witness:
  "district_step (example_library partial_site) link1
     = ([CellNotFound ''sa2'' '' Praha''], Return (Some (''1'', partial_record)))
   \<and> global_data_step (example_library partial_site) link1
     = ([CellNotFound_v1 ''sa2'' '' Praha''], Return (Some (''1'', partial_record)))
   \<and> http_get (example_library partial_site) link1 = Inr partial_page
   \<and> select_one partial_page district_selector = Some ''Obec: Praha''
   \<and> get_code_from_url (example_library partial_site) link1 = Inr (Some ''1'')
   \<and> get_district_name partial_page district_selector = Inr (Some '' Praha'')
   \<and> \<not> votes_fail (example_library partial_site) partial_page
   \<and> header_cell partial_page ''sa2'' = None
   \<and> parsed_record (example_library partial_site) partial_page '' Praha''
        (refactored_votes (example_library partial_site) partial_page) = partial_record
   \<and> map_of (insert_record (yield (district_step (example_library partial_site)) link1) []) ''1''
       = Some partial_record
   \<and> map_of (insert_record (yield (global_data_step (example_library partial_site)) link1) []) ''1''
       = Some partial_record"
proof -
  let ?L = "example_library partial_site"
  have f: "http_get ?L link1 = Inr partial_page"
    by (simp add: example_library_def partial_site_def)
  have h: "select_one partial_page district_selector = Some ''Obec: Praha''"
    "header_cell partial_page ''sa2'' = None"
    by (simp_all add: partial_page_def district_page_def)
  have n: "get_district_name partial_page district_selector = Inr (Some '' Praha'')"
    by (simp add: get_district_name_def h strip_def isspace_def item_def)
  have v: "\<not> votes_fail ?L partial_page"
    "refactored_votes ?L partial_page = Some [(''A'', 10), (''B'', 3)]"
    "zipped_votes ?L partial_page = [(''A'', 10), (''B'', 3)]"
    by (simp_all add: votes_fail_def refactored_votes_def zipped_votes_def partial_page_def
        district_page_def parses_def example_library_def example_int_def strip_def isspace_def
        clean_data_def dict_def)
  have p: "parsed_record ?L partial_page '' Praha'' (Some [(''A'', 10), (''B'', 3)]) = partial_record"
    by (simp add: parsed_record_def count_of_def partial_page_def district_page_def
        partial_record_def example_library_def example_int_def clean_data_def)
  have m: "fst (headers_loop warn ?L partial_page headers
      (empty_district\<lparr>location := '' Praha'',
         political_parties_votes := Some [(''A'', 10), (''B'', 3)]\<rparr>)) = [warn ''sa2'' '' Praha'']"
    for warn
    by (simp add: headers_def partial_page_def district_page_def empty_district_def
        example_library_def example_int_def clean_data_def)
  note t = C1_record_inserted [of ?L link1 _ "''1''" _ partial_page "'' Praha''" "[]"]
  from t f n v example_codes(1) [of partial_site]
  have s1: "snd (district_step ?L link1) = Return (Some (''1'', partial_record))"
    and i1: "map_of (insert_record (yield (district_step ?L) link1) []) ''1'' = Some partial_record"
    and s2: "snd (global_data_step ?L link1) = Return (Some (''1'', partial_record))"
    and i2: "map_of (insert_record (yield (global_data_step ?L) link1) []) ''1'' = Some partial_record"
    by (simp_all add: p)
  have o1: "fst (district_step ?L link1) = [CellNotFound ''sa2'' '' Praha'']"
    by (simp add: district_step_eq [OF f] example_codes n v m)
  have pv: "list_all (parses ?L) (vote_cells partial_page)"
    by (simp add: partial_page_def district_page_def parses_def example_library_def
        example_int_def strip_def isspace_def clean_data_def)
  have o2: "fst (global_data_step ?L link1) = [CellNotFound_v1 ''sa2'' '' Praha'']"
    by (simp add: global_data_step_eq [OF f] example_codes n v m get_votes_of_parties_v1_eq pv)
  from s1 o1 have d1: "district_step ?L link1
     = ([CellNotFound ''sa2'' '' Praha''], Return (Some (''1'', partial_record)))"
    by (simp add: prod_eq_iff)
  from s2 o2 have d2: "global_data_step ?L link1
     = ([CellNotFound_v1 ''sa2'' '' Praha''], Return (Some (''1'', partial_record)))"
    by (simp add: prod_eq_iff)
  from d1 d2 f h n v p i1 i2 example_codes(1) [of partial_site] show ?thesis
    by simp
qed











lemma noparty_pass:
  "district_step (example_library noparty_site) link1 = ([], Return (Some (''1'', noparty_record None)))"
  "global_data_step (example_library noparty_site) link1
     = ([], Return (Some (''1'', noparty_record (Some []))))"
proof -
  let ?L = "example_library noparty_site"
  have f: "http_get ?L link1 = Inr noparty_page"
    by (simp add: example_library_def noparty_site_def)
  have n: "get_district_name noparty_page district_selector = Inr (Some '' Praha'')"
    by (simp add: get_district_name_def noparty_page_def district_page_def strip_def
        isspace_def item_def)
  have v: "\<not> votes_fail ?L noparty_page" "refactored_votes ?L noparty_page = None"
    "zipped_votes ?L noparty_page = []" "list_all (parses ?L) (vote_cells noparty_page)"
    by (simp_all add: votes_fail_def refactored_votes_def zipped_votes_def noparty_page_def
        district_page_def dict_def)
  have h: "headers_loop warn ?L noparty_page headers
      (empty_district\<lparr>location := '' Praha'', political_parties_votes := votes\<rparr>)
      = ([], Return (noparty_record votes))" for warn votes
    by (simp add: headers_def noparty_page_def district_page_def empty_district_def
        example_library_def example_int_def clean_data_def noparty_record_def return_def)
  have p: "parsed_record ?L noparty_page '' Praha'' votes = noparty_record votes" for votes
    using headers_loop_counts [where warn = CellNotFound and lib = ?L and soup = noparty_page
        and name = "'' Praha''" and votes = votes]
    by (simp add: h)
  show "district_step ?L link1 = ([], Return (Some (''1'', noparty_record None)))"
    by (simp add: district_step_eq [OF f] example_codes n v h p)
  show "global_data_step ?L link1 = ([], Return (Some (''1'', noparty_record (Some []))))"
    by (simp add: global_data_step_eq [OF f] example_codes n v h p get_votes_of_parties_v1_eq)
qed

text \<open>
  C4: a district without party-name cells is claimed to leave every step of the pipeline
  working. The refactored script stores \<open>None\<close> as the party votes of the record;
  the record is produced and the CSV is written, then \<open>plot_top_10_parties\<close> calls
  \<open>.items()\<close> on \<open>None\<close> and the run ends with \<open>AttributeError\<close>, without a chart. The
  first script stores the empty dict and finishes the same run.
\<close>

theorem C4_chart_fails_on_district_without_parties:
  "get_votes_of_parties (example_library noparty_site) noparty_page = ([], Return None)
   \<and> extract_all_districts_data (example_library noparty_site) (index_page [cell1])
       = ([], Return [(''1'', noparty_record None)])
   \<and> top_10_parties [(''1'', noparty_record None)] = Inl AttributeError
   \<and> elections_scraper (example_library noparty_site) empty_fs index_url ''out''
       = (\<lparr>dirs = {''Results''},
            files = [''Results/out.csv'' \<mapsto> Csv [(''1'', noparty_record None)]]\<rparr>,
          ([Downloading index_url, CsvCreated ''Results/out.csv''], Raise AttributeError))
   \<and> global_data_v1 (example_library noparty_site) (index_page [cell1])
       = ([], Return [(''1'', noparty_record (Some []))])
   \<and> elections_scraper_v1 (example_library noparty_site) empty_fs index_url ''out''
       = (\<lparr>dirs = {''Results''},
            files = [''Results/out.csv'' \<mapsto> Csv [(''1'', noparty_record (Some []))],
                     ''Results/Top_10_Parties_of_out.png'' \<mapsto> Png []]\<rparr>,
          ([Downloading index_url, CsvCreated ''out.csv'',
            PlotCreated ''Top_10_Parties_of_out.png'', Finished], Return ()))"
proof -
  let ?L = "example_library noparty_site"
  have f: "http_get ?L index_url = Inr (index_page [cell1])"
    by (simp add: example_library_def noparty_site_def)
  have l: "page_links (index_page [cell1]) = [link1]"
    by (simp add: page_links_def example_cells List.map_filter_simps link1_def)
  have g: "get_votes_of_parties ?L noparty_page = ([], Return None)"
    by (simp add: get_votes_of_parties_def noparty_page_def district_page_def return_def)
  have s2: "extract_all_districts_data ?L (index_page [cell1]) = ([], Return [(''1'', noparty_record None)])"
    by (simp add: extract_all_districts_data_def extract_all_district_links_links example_cells l
        noparty_pass bind_io_Return insert_record_def return_def)
  have s1: "global_data_v1 ?L (index_page [cell1]) = ([], Return [(''1'', noparty_record (Some []))])"
    by (simp add: global_data_v1_def all_district_links_v1_good example_cells l
        noparty_pass bind_io_Return insert_record_def return_def)
  have t2: "top_10_parties [(''1'', noparty_record None)] = Inl AttributeError"
    by (simp add: top_10_parties_def noparty_record_def)
  have t1: "top_10_parties [(''1'', noparty_record (Some []))] = Inr []"
    by (simp add: top_10_parties_def noparty_record_def sorted_reverse_def dict_def)
  have c2: "get_csv empty_fs [(''1'', noparty_record None)] ''out''
      = (\<lparr>dirs = {''Results''},
            files = [''Results/out.csv'' \<mapsto> Csv [(''1'', noparty_record None)]]\<rparr>,
         ([CsvCreated ''Results/out.csv''], Return ()))"
    by (simp add: get_csv_def Let_def export_csv_def data_frame_def makedirs_def path_exists_def
        write_file_def dirname_def path_join_def add_extension_def endswith_def empty_fs_def
        print_def)
  have c1: "get_csv_v1 empty_fs [(''1'', noparty_record (Some []))] ''out''
      = (\<lparr>dirs = {''Results''},
            files = [''Results/out.csv'' \<mapsto> Csv [(''1'', noparty_record (Some []))]]\<rparr>,
         ([CsvCreated ''out.csv''], Return ()))"
    by (simp add: get_csv_v1_def Let_def export_csv_def data_frame_def makedirs_def path_exists_def
        write_file_def dirname_def path_join_def add_extension_v1_def empty_fs_def print_def)
  have p2: "plot_top_10_parties fs [(''1'', noparty_record None)] ''out'' = (fs, ([], Raise AttributeError))"
    for fs
    by (simp add: plot_top_10_parties_def Let_def render_chart_def t2 raise_def)
  have p1: "plot_top_10_parties_v1
        \<lparr>dirs = {''Results''},
          files = [''Results/out.csv'' \<mapsto> Csv [(''1'', noparty_record (Some []))]]\<rparr>
        [(''1'', noparty_record (Some []))] ''out''
      = (\<lparr>dirs = {''Results''},
            files = [''Results/out.csv'' \<mapsto> Csv [(''1'', noparty_record (Some []))],
                     ''Results/Top_10_Parties_of_out.png'' \<mapsto> Png []]\<rparr>,
         ([PlotCreated ''Top_10_Parties_of_out.png''], Return ()))"
    by (simp add: plot_top_10_parties_v1_def Let_def render_chart_def t1 write_file_def
        dirname_def path_join_def add_extension_v1_def print_def)
  have r2: "elections_scraper ?L empty_fs index_url ''out''
       = (\<lparr>dirs = {''Results''},
            files = [''Results/out.csv'' \<mapsto> Csv [(''1'', noparty_record None)]]\<rparr>,
          ([Downloading index_url, CsvCreated ''Results/out.csv''], Raise AttributeError))"
    by (simp add: elections_scraper_def run_def get_soup_success [OF f] s2 c2 p2)
  have r1: "elections_scraper_v1 ?L empty_fs index_url ''out''
       = (\<lparr>dirs = {''Results''},
            files = [''Results/out.csv'' \<mapsto> Csv [(''1'', noparty_record (Some []))],
                     ''Results/Top_10_Parties_of_out.png'' \<mapsto> Png []]\<rparr>,
          ([Downloading index_url, CsvCreated ''out.csv'',
            PlotCreated ''Top_10_Parties_of_out.png'', Finished], Return ()))"
    by (simp add: elections_scraper_v1_def run_def get_soup_success [OF f] s1 c1 p1)
  from g s2 t2 r2 s1 r1 show ?thesis by simp
qed

lemma add_extension_agree:
  "add_extension_v1 filename extension = add_extension filename extension
     \<longleftrightarrow> \<not> endswith filename (''.'' @ extension)"
  by (simp add: add_extension_def add_extension_v1_def)

lemma links_agree:
  "list_all (\<lambda>c. cell_href c \<noteq> None) (link_cells soup) \<Longrightarrow>
   all_district_links_v1 soup = extract_all_district_links soup"
  by (simp add: all_district_links_v1_good extract_all_district_links_links list_all_iff
      filter_empty_conv)

lemma zipped_votes_no_parties: "party_cells soup = [] \<Longrightarrow> zipped_votes lib soup = []"
  by (simp add: zipped_votes_def dict_def split: option.splits)

lemma path_join_Results_inject:
  "path_join ''Results'' p = path_join ''Results'' q \<longleftrightarrow> p = q"
  by (cases p; cases q) (auto simp: path_join_def)

lemma splitext_root_length: "length (splitext_root p) \<le> length p"
  by (simp add: splitext_root_def Let_def)

text \<open>
  The names of the chart files: the first script appends \<open>.png\<close> to the name as it is, the
  refactored one cuts the extension of the name first and appends \<open>.png\<close> unless it is
  there.
\<close>

lemma chart_name_agree:
  "add_extension_v1 (prefix @ f) ''png'' = add_extension (prefix @ splitext_root f) ''png''
     \<longleftrightarrow> splitext_root f = f \<and> \<not> endswith (prefix @ f) ''.png''"
proof (cases "endswith (prefix @ splitext_root f) ''.png''")
  case True
  have "prefix @ f @ ''.png'' \<noteq> prefix @ splitext_root f"
  proof
    assume "prefix @ f @ ''.png'' = prefix @ splitext_root f"
    then have "length (f @ ''.png'') = length (splitext_root f)" by simp
    with splitext_root_length [of f] show False by simp
  qed
  with True show ?thesis
    by (auto simp: add_extension_def add_extension_v1_def)
next
  case False
  then show ?thesis
    by (auto simp: add_extension_def add_extension_v1_def)
qed

lemma chart_path_agree:
  "chart_path_v1 f = chart_path f
     \<longleftrightarrow> splitext_root f = f \<and> \<not> endswith (''Top_10_Parties_of_'' @ f) ''.png''"
  unfolding chart_path_def chart_path_v1_def path_join_Results_inject
  by (rule chart_name_agree)

lemma csv_path_agree:
  "csv_path_v1 f = csv_path f \<longleftrightarrow> \<not> endswith f ''.csv''"
  unfolding csv_path_def csv_path_v1_def path_join_Results_inject
  using add_extension_agree [of f "''csv''"] by simp

lemma export_paths:
  "get_csv fs data filename = export_csv fs data (csv_path filename) (CsvCreated (csv_path filename))"
  "get_csv_v1 fs data filename
     = export_csv fs data (csv_path_v1 filename) (CsvCreated (filename @ ''.csv''))"
  "plot_top_10_parties fs data filename
     = render_chart fs data (chart_path filename) (PlotCreated (chart_path filename))"
  "plot_top_10_parties_v1 fs data filename
     = render_chart fs data (chart_path_v1 filename)
         (PlotCreated (''Top_10_Parties_of_'' @ filename @ ''.png''))"
  by (simp_all add: get_csv_def get_csv_v1_def plot_top_10_parties_def plot_top_10_parties_v1_def
      csv_path_def csv_path_v1_def chart_path_def chart_path_v1_def Let_def)

lemma chart_path_examples:
  "chart_path_v1 ''a.b'' = ''Results/Top_10_Parties_of_a.b.png''"
  "chart_path ''a.b'' = ''Results/Top_10_Parties_of_a.png''"
  "chart_path_v1 ''.png'' = ''Results/Top_10_Parties_of_.png.png''"
  "chart_path ''.png'' = ''Results/Top_10_Parties_of_.png''"
  "chart_path_v1 ''out'' = ''Results/Top_10_Parties_of_out.png''"
  "chart_path ''out'' = ''Results/Top_10_Parties_of_out.png''"
  "splitext_root ''out'' = ''out''"
  "\<not> endswith (''Top_10_Parties_of_'' @ ''out'') ''.png''"
  "\<not> endswith ''out'' ''.csv''"
  by (simp_all add: chart_path_def chart_path_v1_def path_join_def add_extension_def
      add_extension_v1_def splitext_root_def endswith_def)

text \<open>A pass over a fetched page: when the two scripts insert the same, or both nothing.\<close>

lemma steps_agree_iff:
  assumes f: "http_get lib link = Inr soup"
  shows "snd (global_data_step lib link) = snd (district_step lib link) \<longleftrightarrow>
     (\<forall>c n. get_code_from_url lib link = Inr (Some c)
          \<and> get_district_name soup district_selector = Inr (Some n) \<longrightarrow>
        n \<noteq> [] \<and> party_cells soup \<noteq> [] \<and> list_all (parses lib) (vote_cells soup))"
  by (auto simp: global_data_step_eq [OF f] district_step_eq [OF f] votes_fail_def
      refactored_votes_def parsed_record_def split: sum.splits option.splits)

lemma steps_skip_without_heading:
  assumes f: "http_get lib link = Inr soup" and n: "select_one soup district_selector = None"
  shows "global_data_step lib link = ([NameNotFound link], Return None)"
    and "snd (district_step lib link) = Return None"
  using n by (simp_all add: global_data_step_eq [OF f] district_step_eq [OF f] get_district_name_def
      split: sum.splits option.splits)

text \<open>The command line with positional arguments only.\<close>

lemma main_plain:
  assumes "list_all plain (drop 1 argv)"
  shows "length argv = 3 \<Longrightarrow> main lib fs argv = elections_scraper lib fs (argv ! 1) (argv ! 2)"
    and "length argv = 3 \<Longrightarrow>
         main_v1 dashed lib fs argv = elections_scraper_v1 lib fs (argv ! 1) (argv ! 2)"
    and "length argv \<noteq> 3 \<Longrightarrow> main lib fs argv = (fs, ([Usage], Exit 1))"
    and "length argv \<noteq> 3 \<Longrightarrow> main_v1 dashed lib fs argv = (fs, ([ParserOutput 2], Exit 2))"
  using assms by (auto simp: main_def main_v1_def parse_args_def numeral_2_eq_2)

text \<open>
  C9, amended: the two scripts agree
  \<^item> on the file name exactly when it does not already end in the extension (the
    refactored script then leaves it as it is, the first appends the extension again); so
    the paths of the CSV file agree exactly when the output name does not end in
    \<open>.csv\<close>, and the paths of the chart file exactly when the output name has no
    extension that \<open>os.path.splitext\<close> cuts and the chart name does not end in \<open>.png\<close>;
  \<^item> on the links of an index page whose cells are all valid (on any other page the
    first script raises and the refactored one returns);
  \<^item> on a link whose request fails;
  \<^item> on what a pass over a fetched district page yields, exactly when the code or the
    heading's name is not found (both skip the district; a page without the heading is
    such a page) or the page has a non-empty location name, party-name cells and vote
    cells that all parse; without party-name cells the records differ in the party votes
    only, \<open>{}\<close> against \<open>None\<close>;
  \<^item> on the command line, as far as it holds positional arguments only: with two of
    them each script runs its pipeline on these two, with any other number both abort
    before any request, the first with the exit status 2 of \<open>argparse\<close>, the refactored
    one with its usage line and status 1. The refactored script runs on any two
    arguments.
  The code of a link is read by the same function in both.
\<close>

theorem C9_scripts_agree:
  "(add_extension_v1 filename extension = add_extension filename extension
      \<longleftrightarrow> \<not> endswith filename (''.'' @ extension))
   \<and> (list_all (\<lambda>c. cell_href c \<noteq> None) (link_cells index) \<longrightarrow>
        all_district_links_v1 index = extract_all_district_links index)
   \<and> (\<not> list_all (\<lambda>c. cell_href c \<noteq> None) (link_cells index) \<longrightarrow>
        (\<exists>e. all_district_links_v1 index = ([], Raise e)) \<and> returns (extract_all_district_links index))
   \<and> (http_get lib link = Inl (cls, txt) \<longrightarrow> global_data_step lib link = district_step lib link)
   \<and> (http_get lib link = Inr soup \<and> get_district_name soup district_selector = Inr (Some name)
        \<and> name \<noteq> [] \<and> party_cells soup \<noteq> [] \<and> list_all (parses lib) (vote_cells soup) \<longrightarrow>
        snd (global_data_step lib link) = snd (district_step lib link))
   \<and> (http_get lib link = Inr soup \<and> get_district_name soup district_selector = Inr (Some name)
        \<and> name \<noteq> [] \<and> party_cells soup = [] \<and> get_code_from_url lib link = Inr (Some c) \<longrightarrow>
        snd (global_data_step lib link) = Return (Some (c, parsed_record lib soup name (Some [])))
        \<and> snd (district_step lib link) = Return (Some (c, parsed_record lib soup name None)))
   \<and> (http_get lib link = Inr soup \<longrightarrow>
        (snd (global_data_step lib link) = snd (district_step lib link) \<longleftrightarrow>
           (\<forall>c n. get_code_from_url lib link = Inr (Some c)
                \<and> get_district_name soup district_selector = Inr (Some n) \<longrightarrow>
              n \<noteq> [] \<and> party_cells soup \<noteq> [] \<and> list_all (parses lib) (vote_cells soup))))
   \<and> (http_get lib link = Inr soup \<and> select_one soup district_selector = None \<longrightarrow>
        global_data_step lib link = ([NameNotFound link], Return None)
        \<and> snd (district_step lib link) = Return None)
   \<and> get_csv fs data filename
       = export_csv fs data (csv_path filename) (CsvCreated (csv_path filename))
   \<and> get_csv_v1 fs data filename
       = export_csv fs data (csv_path_v1 filename) (CsvCreated (filename @ ''.csv''))
   \<and> (csv_path_v1 filename = csv_path filename \<longleftrightarrow> \<not> endswith filename ''.csv'')
   \<and> plot_top_10_parties fs data filename
       = render_chart fs data (chart_path filename) (PlotCreated (chart_path filename))
   \<and> plot_top_10_parties_v1 fs data filename
       = render_chart fs data (chart_path_v1 filename)
           (PlotCreated (''Top_10_Parties_of_'' @ filename @ ''.png''))
   \<and> (chart_path_v1 filename = chart_path filename
        \<longleftrightarrow> splitext_root filename = filename
            \<and> \<not> endswith (''Top_10_Parties_of_'' @ filename) ''.png'')
   \<and> (list_all plain (drop 1 argv) \<and> length argv = 3 \<longrightarrow>
        main lib fs argv = elections_scraper lib fs (argv ! 1) (argv ! 2)
        \<and> main_v1 dashed lib fs argv = elections_scraper_v1 lib fs (argv ! 1) (argv ! 2))
   \<and> (list_all plain (drop 1 argv) \<and> length argv \<noteq> 3 \<longrightarrow>
        main lib fs argv = (fs, ([Usage], Exit 1))
        \<and> main_v1 dashed lib fs argv = (fs, ([ParserOutput 2], Exit 2)))
   \<and> (length argv = 3 \<longrightarrow> main lib fs argv = elections_scraper lib fs (argv ! 1) (argv ! 2))"
proof (intro conjI impI)
  show "add_extension_v1 filename extension = add_extension filename extension
      \<longleftrightarrow> \<not> endswith filename (''.'' @ extension)"
    by (rule add_extension_agree)
next
  assume "list_all (\<lambda>c. cell_href c \<noteq> None) (link_cells index)"
  then show "all_district_links_v1 index = extract_all_district_links index"
    by (rule links_agree)
next
  assume "\<not> list_all (\<lambda>c. cell_href c \<noteq> None) (link_cells index)"
  from all_district_links_v1_bad [OF this]
  show "\<exists>e. all_district_links_v1 index = ([], Raise e)" by blast
next
  show "returns (extract_all_district_links index)"
    by (simp add: extract_all_district_links_links)
next
  assume "http_get lib link = Inl (cls, txt)"
  then show "global_data_step lib link = district_step lib link"
    by (simp add: global_data_step_failure district_step_failure)
next
  assume a: "http_get lib link = Inr soup \<and> get_district_name soup district_selector = Inr (Some name)
        \<and> name \<noteq> [] \<and> party_cells soup \<noteq> [] \<and> list_all (parses lib) (vote_cells soup)"
  then have f: "http_get lib link = Inr soup" by simp
  from a show "snd (global_data_step lib link) = snd (district_step lib link)"
    by (simp add: global_data_step_eq [OF f] district_step_eq [OF f] votes_fail_def
        refactored_votes_def split: sum.splits option.splits)
next
  assume a: "http_get lib link = Inr soup \<and> get_district_name soup district_selector = Inr (Some name)
        \<and> name \<noteq> [] \<and> party_cells soup = [] \<and> get_code_from_url lib link = Inr (Some c)"
  then have f: "http_get lib link = Inr soup" by simp
  from a show "snd (global_data_step lib link)
      = Return (Some (c, parsed_record lib soup name (Some [])))"
    by (simp add: global_data_step_eq [OF f] zipped_votes_no_parties)
  from a show "snd (district_step lib link) = Return (Some (c, parsed_record lib soup name None))"
    by (simp add: district_step_eq [OF f] votes_fail_def refactored_votes_def)
next
  assume "http_get lib link = Inr soup"
  then show "snd (global_data_step lib link) = snd (district_step lib link) \<longleftrightarrow>
     (\<forall>c n. get_code_from_url lib link = Inr (Some c)
          \<and> get_district_name soup district_selector = Inr (Some n) \<longrightarrow>
        n \<noteq> [] \<and> party_cells soup \<noteq> [] \<and> list_all (parses lib) (vote_cells soup))"
    by (rule steps_agree_iff)
next
  assume a: "http_get lib link = Inr soup \<and> select_one soup district_selector = None"
  then show "global_data_step lib link = ([NameNotFound link], Return None)"
    by (simp add: steps_skip_without_heading)
  from a show "snd (district_step lib link) = Return None"
    by (simp add: steps_skip_without_heading)
next
  show "get_csv fs data filename
       = export_csv fs data (csv_path filename) (CsvCreated (csv_path filename))"
    by (rule export_paths)
next
  show "get_csv_v1 fs data filename
       = export_csv fs data (csv_path_v1 filename) (CsvCreated (filename @ ''.csv''))"
    by (rule export_paths)
next
  show "csv_path_v1 filename = csv_path filename \<longleftrightarrow> \<not> endswith filename ''.csv''"
    by (rule csv_path_agree)
next
  show "plot_top_10_parties fs data filename
       = render_chart fs data (chart_path filename) (PlotCreated (chart_path filename))"
    by (rule export_paths)
next
  show "plot_top_10_parties_v1 fs data filename
       = render_chart fs data (chart_path_v1 filename)
           (PlotCreated (''Top_10_Parties_of_'' @ filename @ ''.png''))"
    by (rule export_paths)
next
  show "chart_path_v1 filename = chart_path filename
        \<longleftrightarrow> splitext_root filename = filename
            \<and> \<not> endswith (''Top_10_Parties_of_'' @ filename) ''.png''"
    by (rule chart_path_agree)
next
  assume a: "list_all plain (drop 1 argv) \<and> length argv = 3"
  then show "main lib fs argv = elections_scraper lib fs (argv ! 1) (argv ! 2)"
    by (simp add: main_plain)
  from a show "main_v1 dashed lib fs argv = elections_scraper_v1 lib fs (argv ! 1) (argv ! 2)"
    by (simp add: main_plain)
next
  assume a: "list_all plain (drop 1 argv) \<and> length argv \<noteq> 3"
  then show "main lib fs argv = (fs, ([Usage], Exit 1))"
    by (simp add: main_plain)
  from a show "main_v1 dashed lib fs argv = (fs, ([ParserOutput 2], Exit 2))"
    by (simp add: main_plain)
next
  assume "length argv = 3"
  then show "main lib fs argv = elections_scraper lib fs (argv ! 1) (argv ! 2)"
    by (simp add: main_def)
qed

text \<open>
  C9 as stated fails: the scripts differ on a file name that already has its extension,
  on the chart file of an output name with an extension (\<open>a.b\<close>), on an index page with a
  cell without a link, on a district with a vote cell that is no number (the first
  script keeps the record with an empty dict, the refactored one drops it), on a
  district with an empty name (kept against dropped), and in the exit status when the
  command line has no argument (2 against 1).
\<close>

theorem C9_scripts_differ_counterexample:
  "add_extension_v1 ''out.csv'' ''csv'' = ''out.csv.csv''
   \<and> add_extension ''out.csv'' ''csv'' = ''out.csv''
   \<and> all_district_links_v1 (index_page [cell1, None, cell2]) = ([], Raise AttributeError)
   \<and> extract_all_district_links (index_page [cell1, None, cell2])
       = ([LinkWarning], Return [link1, link2])
   \<and> yield (global_data_step (example_library lossy_site)) link1
       = Some (''1'', \<lparr>location = '' X'', political_parties_votes = Some [],
                        count_registered = None, count_envelopes = None, count_valid = None\<rparr>)
   \<and> yield (district_step (example_library lossy_site)) link1 = None
   \<and> yield (global_data_step (example_library lossy_site)) link2
       = Some (''2'', \<lparr>location = [], political_parties_votes = Some [],
                        count_registered = None, count_envelopes = None, count_valid = None\<rparr>)
   \<and> yield (district_step (example_library lossy_site)) link2 = None
   \<and> chart_path_v1 ''a.b'' = ''Results/Top_10_Parties_of_a.b.png''
   \<and> chart_path ''a.b'' = ''Results/Top_10_Parties_of_a.png''
   \<and> main (example_library lossy_site) empty_fs [''elections_scraper.py'']
       = (empty_fs, ([Usage], Exit 1))
   \<and> main_v1 (\<lambda>args. Inl 2) (example_library lossy_site) empty_fs [''elections-scraper.py'']
       = (empty_fs, ([ParserOutput 2], Exit 2))"
proof -
  let ?L = "example_library lossy_site"
  have f1: "http_get ?L link1 = Inr votes_page" and f2: "http_get ?L link2 = Inr nameless_page"
    by (simp_all add: example_library_def lossy_site_def)
  have n: "get_district_name votes_page district_selector = Inr (Some '' X'')"
    "get_district_name nameless_page district_selector = Inr (Some [])"
    by (simp_all add: get_district_name_def votes_page_def nameless_page_def district_page_def
        strip_def isspace_def item_def)
  have v: "votes_fail ?L votes_page" "zipped_votes ?L votes_page = []"
    "zipped_votes ?L nameless_page = []"
    by (simp_all add: votes_fail_def zipped_votes_def votes_page_def nameless_page_def
        district_page_def parses_def example_library_def example_int_def strip_def isspace_def
        clean_data_def dict_def)
  have p: "parsed_record ?L votes_page name votes
      = \<lparr>location = name, political_parties_votes = votes,
          count_registered = None, count_envelopes = None, count_valid = None\<rparr>"
    "parsed_record ?L nameless_page name votes
      = \<lparr>location = name, political_parties_votes = votes,
          count_registered = None, count_envelopes = None, count_valid = None\<rparr>"
    for name votes
    by (simp_all add: parsed_record_def count_of_def votes_page_def nameless_page_def
        district_page_def)
  have "yield (global_data_step ?L) link1
       = Some (''1'', \<lparr>location = '' X'', political_parties_votes = Some [],
                        count_registered = None, count_envelopes = None, count_valid = None\<rparr>)"
    by (simp add: yield_def global_data_step_eq [OF f1] example_codes n v p)
  moreover have "yield (district_step ?L) link1 = None"
    by (simp add: yield_def district_step_eq [OF f1] example_codes n v)
  moreover have "yield (global_data_step ?L) link2
       = Some (''2'', \<lparr>location = [], political_parties_votes = Some [],
                        count_registered = None, count_envelopes = None, count_valid = None\<rparr>)"
    by (simp add: yield_def global_data_step_eq [OF f2] example_codes n v p)
  moreover have "yield (district_step ?L) link2 = None"
    by (simp add: yield_def district_step_eq [OF f2] example_codes n)
  moreover have "add_extension_v1 ''out.csv'' ''csv'' = ''out.csv.csv''"
    "add_extension ''out.csv'' ''csv'' = ''out.csv''"
    by (simp_all add: add_extension_v1_def add_extension_def endswith_def)
  moreover have "all_district_links_v1 (index_page [cell1, None, cell2]) = ([], Raise AttributeError)"
    by (simp add: all_district_links_v1_def index_page_def link_try_v1_def cell1_def raise_def)
  moreover have "extract_all_district_links (index_page [cell1, None, cell2])
       = ([LinkWarning], Return [link1, link2])"
    by (simp add: extract_all_district_links_def index_page_def cell1_def cell2_def return_def
        collect_url_def link1_def link2_def bind_io_def print_def)
  moreover have "main ?L empty_fs [''elections_scraper.py''] = (empty_fs, ([Usage], Exit 1))"
    by (simp add: main_def)
  moreover have "main_v1 (\<lambda>args. Inl 2) ?L empty_fs [''elections-scraper.py'']
       = (empty_fs, ([ParserOutput 2], Exit 2))"
    by (simp add: main_v1_def parse_args_def)
  ultimately show ?thesis by (simp add: chart_path_examples)
qed

theorem C9_scripts_agree_witness:
  "\<not> endswith ''out'' (''.'' @ ''csv'')
   \<and> add_extension_v1 ''out'' ''csv'' = add_extension ''out'' ''csv''
   \<and> list_all (\<lambda>c. cell_href c \<noteq> None) (link_cells (index_page [cell1, cell2]))
   \<and> all_district_links_v1 (index_page [cell1, cell2])
       = extract_all_district_links (index_page [cell1, cell2])
   \<and> \<not> list_all (\<lambda>c. cell_href c \<noteq> None) (link_cells (index_page [cell1, None]))
   \<and> (\<exists>e. all_district_links_v1 (index_page [cell1, None]) = ([], Raise e))
   \<and> returns (extract_all_district_links (index_page [cell1, None]))
   \<and> http_get (example_library twin_site) link2 = Inl (''ConnectionError'', ''unreachable'')
   \<and> global_data_step (example_library twin_site) link2 = district_step (example_library twin_site) link2
   \<and> http_get (example_library twin_site) link1 = Inr good_page
   \<and> snd (global_data_step (example_library twin_site) link1)
       = snd (district_step (example_library twin_site) link1)
   \<and> http_get (example_library noparty_site) link1 = Inr noparty_page
   \<and> party_cells noparty_page = []
   \<and> snd (global_data_step (example_library noparty_site) link1)
       = Return (Some (''1'', parsed_record (example_library noparty_site) noparty_page '' Praha'' (Some [])))
   \<and> snd (district_step (example_library noparty_site) link1)
       = Return (Some (''1'', parsed_record (example_library noparty_site) noparty_page '' Praha'' None))
   \<and> snd (global_data_step (example_library noparty_site) link1)
       \<noteq> snd (district_step (example_library noparty_site) link1)
   \<and> http_get (example_library headless_site) link1 = Inr (index_page [])
   \<and> select_one (index_page []) district_selector = None
   \<and> global_data_step (example_library headless_site) link1 = ([NameNotFound link1], Return None)
   \<and> snd (district_step (example_library headless_site) link1) = Return None
   \<and> snd (global_data_step (example_library headless_site) link1)
       = snd (district_step (example_library headless_site) link1)
   \<and> csv_path_v1 ''out'' = csv_path ''out''
   \<and> chart_path_v1 ''out'' = chart_path ''out''
   \<and> list_all plain (drop 1 [''prog'', index_url, ''out''])
   \<and> main (example_library twin_site) empty_fs [''prog'', index_url, ''out'']
       = elections_scraper (example_library twin_site) empty_fs index_url ''out''
   \<and> main_v1 (\<lambda>args. Inl 2) (example_library twin_site) empty_fs [''prog'', index_url, ''out'']
       = elections_scraper_v1 (example_library twin_site) empty_fs index_url ''out''
   \<and> list_all plain (drop 1 [''prog'', index_url])
   \<and> main (example_library twin_site) empty_fs [''prog'', index_url]
       = (empty_fs, ([Usage], Exit 1))
   \<and> main_v1 (\<lambda>args. Inl 2) (example_library twin_site) empty_fs [''prog'', index_url]
       = (empty_fs, ([ParserOutput 2], Exit 2))"
proof -
  note t = C9_scripts_agree
  have a: "\<not> endswith ''out'' (''.'' @ ''csv'')"
    by (simp add: endswith_def)
  with t [where filename = "''out''" and extension = "''csv''"]
  have 1: "add_extension_v1 ''out'' ''csv'' = add_extension ''out'' ''csv''"
    by blast
  have b: "list_all (\<lambda>c. cell_href c \<noteq> None) (link_cells (index_page [cell1, cell2]))"
    by (simp add: example_cells)
  with t [where index = "index_page [cell1, cell2]"]
  have 2: "all_district_links_v1 (index_page [cell1, cell2])
       = extract_all_district_links (index_page [cell1, cell2])"
    by blast
  have c: "\<not> list_all (\<lambda>c. cell_href c \<noteq> None) (link_cells (index_page [cell1, None]))"
    by (simp add: example_cells cell_href_def)
  with t [where index = "index_page [cell1, None]"]
  have 3: "\<exists>e. all_district_links_v1 (index_page [cell1, None]) = ([], Raise e)"
    and 4: "returns (extract_all_district_links (index_page [cell1, None]))"
    by blast+
  let ?T = "example_library twin_site"
  have d: "http_get ?T link2 = Inl (''ConnectionError'', ''unreachable'')"
    by (simp add: example_library_def twin_site_def)
  with t [where lib = ?T and link = link2]
  have 5: "global_data_step ?T link2 = district_step ?T link2"
    by blast
  have e: "http_get ?T link1 = Inr good_page"
    by (simp add: example_library_def twin_site_def)
  have e': "party_cells good_page \<noteq> []"
    by (simp add: good_page_def district_page_def)
  from t [where lib = ?T and link = link1 and soup = good_page and name = "'' Praha''"]
    e e' good_page_parsed
  have 6: "snd (global_data_step ?T link1) = snd (district_step ?T link1)"
    by simp
  let ?N = "example_library noparty_site"
  have g: "http_get ?N link1 = Inr noparty_page" "party_cells noparty_page = []"
    "get_district_name noparty_page district_selector = Inr (Some '' Praha'')"
    by (simp_all add: example_library_def noparty_site_def noparty_page_def district_page_def
        get_district_name_def strip_def isspace_def item_def)
  from t [where lib = ?N and link = link1 and soup = noparty_page and name = "'' Praha''"
      and c = "''1''"] g example_codes(1) [of noparty_site]
  have 7: "snd (global_data_step ?N link1)
       = Return (Some (''1'', parsed_record ?N noparty_page '' Praha'' (Some [])))"
    and 8: "snd (district_step ?N link1)
       = Return (Some (''1'', parsed_record ?N noparty_page '' Praha'' None))"
    by simp_all
  from t [where lib = ?N and link = link1 and soup = noparty_page] g example_codes(1) [of noparty_site]
  have 9: "snd (global_data_step ?N link1) \<noteq> snd (district_step ?N link1)"
    by simp
  let ?H = "example_library headless_site"
  have h: "http_get ?H link1 = Inr (index_page [])"
    "select_one (index_page []) district_selector = None"
    by (simp_all add: example_library_def headless_site_def index_page_def)
  from t [where lib = ?H and link = link1 and soup = "index_page []"] h
  have 10: "global_data_step ?H link1 = ([NameNotFound link1], Return None)"
    and 11: "snd (district_step ?H link1) = Return None"
    by simp_all
  from 10 11 have 12: "snd (global_data_step ?H link1) = snd (district_step ?H link1)"
    by simp
  from t [where filename = "''out''"] chart_path_examples
  have 13: "csv_path_v1 ''out'' = csv_path ''out''"
    and 14: "chart_path_v1 ''out'' = chart_path ''out''"
    by simp_all
  have i: "list_all plain (drop 1 [''prog'', index_url, ''out''])"
    "list_all plain (drop 1 [''prog'', index_url])"
    by (simp_all add: plain_def index_url_def base_url_def)
  from t [where argv = "[''prog'', index_url, ''out'']" and lib = ?T and fs = empty_fs
      and dashed = "\<lambda>args. Inl 2"] i(1)
  have 15: "main ?T empty_fs [''prog'', index_url, ''out'']
       = elections_scraper ?T empty_fs index_url ''out''"
    and 16: "main_v1 (\<lambda>args. Inl 2) ?T empty_fs [''prog'', index_url, ''out'']
       = elections_scraper_v1 ?T empty_fs index_url ''out''"
    by simp_all
  from t [where argv = "[''prog'', index_url]" and lib = ?T and fs = empty_fs
      and dashed = "\<lambda>args. Inl 2"] i(2)
  have 17: "main ?T empty_fs [''prog'', index_url] = (empty_fs, ([Usage], Exit 1))"
    and 18: "main_v1 (\<lambda>args. Inl 2) ?T empty_fs [''prog'', index_url]
       = (empty_fs, ([ParserOutput 2], Exit 2))"
    by simp_all
  from a 1 b 2 c 3 4 d 5 e 6 g(1,2) 7 8 9 h 10 11 12 13 14 i 15 16 17 18 show ?thesis
    by blast
qed

end
